theory Spec2Isabelle
  imports Complex_Main
begin

text \<open>
  The class \<open>OKXDexService\<close> of the payment backend (the second file of
  \<open>src/unnamed/part_000\<close>, which the demo imports as \<open>lib/OKXDexService.js\<close>; the line
  numbers below are those of \<open>part_000\<close>): the route decision \<open>calculatePaymentRoute\<close>,
  the quote adapter \<open>getSwapQuote\<close>, the swap \<open>executeSwap\<close> with its audit record, and
  the helpers they call.  The methods are translated statement by statement.  Whatever a method does to the outside (an HTTP
  request, a database write, a line on \<open>console.error\<close>) is recorded as an event; whatever
  the outside answers (the provider, the database, the clock, the random source) is read
  from a \<open>world\<close>.  A method returns its events together with a value or a thrown
  exception, so that a \<open>try\<close> with its \<open>catch\<close> is a function on such pairs, and
  that a method never throws is a statement to prove.
\<close>

section \<open>JavaScript strings\<close>

text \<open>
  A JavaScript string is modelled as a \<^typ>\<open>string\<close> whose characters are the code
  units \<open>U+0000\<close> to \<open>U+00FF\<close>.  Token addresses, chain identifiers, decimal amounts and
  HTTP method names all live in that range.
\<close>

text \<open>\<open>String.prototype.toLowerCase\<close> on that range: the letters A to Z and the accented
  capitals \<open>U+00C0\<close> to \<open>U+00DE\<close> (the multiplication sign apart) move up by 32.\<close>

definition toLowerCase_char :: "char \<Rightarrow> char" where
  "toLowerCase_char c =
     (let n = (of_char c :: nat)
      in if (65 \<le> n \<and> n \<le> 90) \<or> (192 \<le> n \<and> n \<le> 222 \<and> n \<noteq> 215)
         then char_of (n + 32) else c)"

definition toLowerCase :: "string \<Rightarrow> string" where
  "toLowerCase s = map toLowerCase_char s"

text \<open>
  \<open>String.prototype.toUpperCase\<close> can leave that range: the sharp s \<open>U+00DF\<close> becomes
  the two letters \<open>SS\<close>, the micro sign \<open>U+00B5\<close> becomes \<open>U+039C\<close> and \<open>U+00FF\<close>
  becomes \<open>U+0178\<close>.  So its result is a list of code units, each a number; the letters
  a to z and the accented small letters \<open>U+00E0\<close> to \<open>U+00FE\<close> (the division sign apart)
  move down by 32.
\<close>

definition code_units :: "string \<Rightarrow> nat list" where
  "code_units s = map of_char s"

definition toUpperCase_char :: "char \<Rightarrow> nat list" where
  "toUpperCase_char c =
     (let n = (of_char c :: nat)
      in if (97 \<le> n \<and> n \<le> 122) \<or> (224 \<le> n \<and> n \<le> 254 \<and> n \<noteq> 247) then [n - 32]
         else if n = 223 then [83, 83]
         else if n = 181 then [924]
         else if n = 255 then [376]
         else [n])"

definition toUpperCase :: "string \<Rightarrow> nat list" where
  "toUpperCase s = concat (map toUpperCase_char s)"

section \<open>JavaScript numbers\<close>

text \<open>
  A Number is an IEEE 754 binary64 value: not-a-number, an infinity, or a finite value.
  Finite values are kept as a sign (\<open>True\<close> for negative) and an exact rational magnitude,
  so both zeros exist.  Every arithmetic result is the exact rational result rounded to
  the nearest representable value, ties to even, as the standard prescribes.
\<close>

datatype jsnum = NaN | Infinite bool | Finite bool rat

definition pow2 :: "int \<Rightarrow> rat" where
  "pow2 e = (if 0 \<le> e then 2 ^ nat e else 1 / 2 ^ nat (- e))"

definition pow10 :: "int \<Rightarrow> rat" where
  "pow10 e = (if 0 \<le> e then 10 ^ nat e else 1 / 10 ^ nat (- e))"

text \<open>
  \<open>binary_exponent lo hi a\<close> bisects for the exponent \<open>e\<close> with
  \<open>2 ^ e \<le> a < 2 ^ (e + 1)\<close>, given \<open>2 ^ lo \<le> a < 2 ^ hi\<close>.
\<close>

function binary_exponent :: "int \<Rightarrow> int \<Rightarrow> rat \<Rightarrow> int" where
  "binary_exponent lo hi a =
     (if hi - lo \<le> 1 then lo
      else if pow2 ((lo + hi) div 2) \<le> a then binary_exponent ((lo + hi) div 2) hi a
      else binary_exponent lo ((lo + hi) div 2) a)"
  by pat_completeness auto
termination
  by (relation "measure (\<lambda>(lo, hi, a). nat (hi - lo))") auto

declare binary_exponent.simps [simp del]

definition half_even :: "int \<Rightarrow> rat \<Rightarrow> int" where
  "half_even f r =
     (if r - of_int f < 1 / 2 then f
      else if 1 / 2 < r - of_int f then f + 1
      else if even f then f else f + 1)"

definition round_half_even :: "rat \<Rightarrow> int" where
  "round_half_even r = half_even \<lfloor>r\<rfloor> r"

definition round_to_unit :: "rat \<Rightarrow> rat \<Rightarrow> rat" where
  "round_to_unit u a = of_int (round_half_even (a / u)) * u"

definition overflow_check :: "bool \<Rightarrow> rat \<Rightarrow> jsnum" where
  "overflow_check s r = (if pow2 1024 \<le> r then Infinite s else Finite s r)"

text \<open>
  \<open>round64 s a\<close> is the binary64 value nearest to the magnitude \<open>a \<ge> 0\<close>, with sign
  \<open>s\<close>: 53 significant bits for normal values, multiples of \<open>2 ^ - 1074\<close> below
  \<open>2 ^ - 1022\<close>, an infinity from \<open>2 ^ 1024\<close> on.
\<close>

definition round64 :: "bool \<Rightarrow> rat \<Rightarrow> jsnum" where
  "round64 s a =
     (if a = 0 then Finite s 0
      else if pow2 1024 \<le> a then Infinite s
      else if a < pow2 (- 1022) then Finite s (round_to_unit (pow2 (- 1074)) a)
      else overflow_check s (round_to_unit (pow2 (binary_exponent (- 1022) 1024 a - 52)) a))"

fun fmul :: "jsnum \<Rightarrow> jsnum \<Rightarrow> jsnum" where
  "fmul NaN y = NaN"
| "fmul x NaN = NaN"
| "fmul (Infinite s) (Infinite t) = Infinite (s \<noteq> t)"
| "fmul (Infinite s) (Finite t b) = (if b = 0 then NaN else Infinite (s \<noteq> t))"
| "fmul (Finite s a) (Infinite t) = (if a = 0 then NaN else Infinite (s \<noteq> t))"
| "fmul (Finite s a) (Finite t b) = round64 (s \<noteq> t) (a * b)"

fun fdiv :: "jsnum \<Rightarrow> jsnum \<Rightarrow> jsnum" where
  "fdiv NaN y = NaN"
| "fdiv x NaN = NaN"
| "fdiv (Infinite s) (Infinite t) = NaN"
| "fdiv (Infinite s) (Finite t b) = Infinite (s \<noteq> t)"
| "fdiv (Finite s a) (Infinite t) = Finite (s \<noteq> t) 0"
| "fdiv (Finite s a) (Finite t b) =
     (if b = 0 then (if a = 0 then NaN else Infinite (s \<noteq> t))
      else round64 (s \<noteq> t) (a / b))"

text \<open>A numeric literal of the source denotes the binary64 value nearest to it.\<close>

definition lit :: "rat \<Rightarrow> jsnum" where
  "lit q = round64 False q"

subsection \<open>\<open>parseFloat\<close>\<close>

definition is_digit :: "char \<Rightarrow> bool" where
  "is_digit c = (48 \<le> (of_char c :: nat) \<and> (of_char c :: nat) \<le> 57)"

definition digit_val :: "char \<Rightarrow> int" where
  "digit_val c = of_char c - 48"

definition digits_val :: "string \<Rightarrow> int" where
  "digits_val ds = foldl (\<lambda>acc c. 10 * acc + digit_val c) 0 ds"

definition is_whitespace :: "char \<Rightarrow> bool" where
  "is_whitespace c = ((of_char c :: nat) \<in> {9, 10, 11, 12, 13, 32, 160})"

definition strip_sign :: "string \<Rightarrow> bool \<times> string" where
  "strip_sign s =
     (case s of
        [] \<Rightarrow> (False, [])
      | c # r \<Rightarrow> if c = CHR ''-'' then (True, r)
                else if c = CHR ''+'' then (False, r) else (False, s))"

definition signed_digits :: "bool \<times> string \<Rightarrow> int" where
  "signed_digits p =
     (if takeWhile is_digit (snd p) = [] then 0
      else if fst p then - digits_val (takeWhile is_digit (snd p))
      else digits_val (takeWhile is_digit (snd p)))"

text \<open>The exponent part, when one is well formed at the head of the rest; else none.\<close>

definition parse_exponent :: "string \<Rightarrow> int" where
  "parse_exponent s =
     (case s of
        [] \<Rightarrow> 0
      | c # r \<Rightarrow> if c = CHR ''e'' \<or> c = CHR ''E'' then signed_digits (strip_sign r) else 0)"

definition fraction_digits :: "string \<Rightarrow> string" where
  "fraction_digits r =
     (case r of [] \<Rightarrow> [] | c # t \<Rightarrow> if c = CHR ''.'' then takeWhile is_digit t else [])"

definition after_fraction :: "string \<Rightarrow> string" where
  "after_fraction r =
     (case r of [] \<Rightarrow> [] | c # t \<Rightarrow> if c = CHR ''.'' then dropWhile is_digit t else r)"

definition parse_decimal :: "bool \<Rightarrow> string \<Rightarrow> string \<Rightarrow> string \<Rightarrow> jsnum" where
  "parse_decimal neg ip fp rest =
     (if ip = [] \<and> fp = [] then NaN
      else round64 neg
             (of_int (digits_val (ip @ fp)) * pow10 (parse_exponent rest - int (length fp))))"

definition parse_unsigned :: "bool \<Rightarrow> string \<Rightarrow> jsnum" where
  "parse_unsigned neg u =
     (if take 8 u = ''Infinity'' then Infinite neg
      else parse_decimal neg (takeWhile is_digit u)
             (fraction_digits (dropWhile is_digit u))
             (after_fraction (dropWhile is_digit u)))"

text \<open>
  \<open>parseFloat\<close> on a string: leading white space is skipped, the longest prefix that is
  a decimal literal is read, and its value is rounded; no such prefix gives \<open>NaN\<close>.
\<close>

definition parseFloat :: "string \<Rightarrow> jsnum" where
  "parseFloat input =
     (case strip_sign (dropWhile is_whitespace input) of (neg, u) \<Rightarrow> parse_unsigned neg u)"

subsection \<open>\<open>Number.prototype.toString\<close>\<close>

definition digit_char :: "nat \<Rightarrow> char" where
  "digit_char d =
     (if d = 0 then CHR ''0'' else if d = 1 then CHR ''1'' else if d = 2 then CHR ''2''
      else if d = 3 then CHR ''3'' else if d = 4 then CHR ''4'' else if d = 5 then CHR ''5''
      else if d = 6 then CHR ''6'' else if d = 7 then CHR ''7'' else if d = 8 then CHR ''8''
      else CHR ''9'')"

fun show_nat :: "nat \<Rightarrow> string" where
  "show_nat n =
     (if n < 10 then [digit_char n] else show_nat (n div 10) @ [digit_char (n mod 10)])"

declare show_nat.simps [simp del]

text \<open>\<open>decimal_exponent a\<close> is the \<open>n\<close> with \<open>10 ^ (n - 1) \<le> a < 10 ^ n\<close>, for \<open>a > 0\<close>.\<close>

definition decimal_exponent :: "rat \<Rightarrow> int" where
  "decimal_exponent a =
     (if 1 \<le> a then int (length (show_nat (nat \<lfloor>a\<rfloor>)))
      else 1 - int (length (show_nat (nat (\<lceil>1 / a\<rceil> - 1)))))"

text \<open>
  A pair \<open>(s, n)\<close> among the candidates with \<open>k\<close> digits stands for \<open>s * 10 ^ (n - k)\<close>.
  Only the nearest \<open>k\<close>-digit decimal below and the nearest above can be closest to \<open>a\<close>.
\<close>

definition decimal_value :: "nat \<Rightarrow> nat \<times> int \<Rightarrow> rat" where
  "decimal_value k c = of_nat (fst c) * pow10 (snd c - int k)"

definition upper_candidate :: "nat \<Rightarrow> nat \<Rightarrow> int \<Rightarrow> nat \<times> int" where
  "upper_candidate k lo n0 = (if lo + 1 = 10 ^ k then (10 ^ (k - 1), n0 + 1) else (lo + 1, n0))"

definition reads_back :: "rat \<Rightarrow> nat \<Rightarrow> nat \<times> int \<Rightarrow> bool" where
  "reads_back a k c = (round64 False (decimal_value k c) = Finite False a)"

definition closer :: "rat \<Rightarrow> nat \<Rightarrow> nat \<times> int \<Rightarrow> nat \<times> int \<Rightarrow> nat \<times> int" where
  "closer a k c1 c2 =
     (if \<bar>decimal_value k c1 - a\<bar> < \<bar>decimal_value k c2 - a\<bar> then c1
      else if \<bar>decimal_value k c2 - a\<bar> < \<bar>decimal_value k c1 - a\<bar> then c2
      else if even (fst c1) then c1 else c2)"

definition choose_digits ::
  "rat \<Rightarrow> nat \<Rightarrow> nat \<times> int \<Rightarrow> nat \<times> int \<Rightarrow> (nat \<times> int) option" where
  "choose_digits a k c1 c2 =
     (if reads_back a k c1 then (if reads_back a k c2 then Some (closer a k c1 c2) else Some c1)
      else if reads_back a k c2 then Some c2 else None)"

definition digits_of_length :: "rat \<Rightarrow> int \<Rightarrow> nat \<Rightarrow> (nat \<times> int) option" where
  "digits_of_length a n0 k =
     choose_digits a k (nat \<lfloor>a / pow10 (n0 - int k)\<rfloor>, n0)
       (upper_candidate k (nat \<lfloor>a / pow10 (n0 - int k)\<rfloor>) n0)"

text \<open>
  The shortest digit string that reads back as \<open>a\<close>; seventeen digits always suffice for
  a binary64 value, and the search stops there.
\<close>

function shortest_digits :: "rat \<Rightarrow> int \<Rightarrow> nat \<Rightarrow> nat \<times> nat \<times> int" where
  "shortest_digits a n0 k =
     (if 18 \<le> k then (k, nat \<lfloor>a / pow10 (n0 - int k)\<rfloor>, n0)
      else (case digits_of_length a n0 k of
              None \<Rightarrow> shortest_digits a n0 (Suc k)
            | Some c \<Rightarrow> (k, c)))"
  by pat_completeness auto
termination
  by (relation "measure (\<lambda>(a, n0, k). 18 - k)") auto

declare shortest_digits.simps [simp del]

definition exponent_suffix :: "int \<Rightarrow> string" where
  "exponent_suffix e =
     CHR ''e'' # (if e < 0 then CHR ''-'' else CHR ''+'') # show_nat (nat \<bar>e\<bar>)"

definition format_digits :: "nat \<Rightarrow> string \<Rightarrow> int \<Rightarrow> string" where
  "format_digits k ds n =
     (if int k \<le> n \<and> n \<le> 21 then ds @ replicate (nat n - k) CHR ''0''
      else if 0 < n \<and> n \<le> 21 then take (nat n) ds @ ''.'' @ drop (nat n) ds
      else if - 6 < n \<and> n \<le> 0 then ''0.'' @ replicate (nat (- n)) CHR ''0'' @ ds
      else if k = 1 then ds @ exponent_suffix (n - 1)
      else take 1 ds @ ''.'' @ drop 1 ds @ exponent_suffix (n - 1))"

definition format_shortest :: "nat \<times> nat \<times> int \<Rightarrow> string" where
  "format_shortest r = format_digits (fst r) (show_nat (fst (snd r))) (snd (snd r))"

definition numToString :: "jsnum \<Rightarrow> string" where
  "numToString x =
     (case x of
        NaN \<Rightarrow> ''NaN''
      | Infinite s \<Rightarrow> (if s then ''-Infinity'' else ''Infinity'')
      | Finite s a \<Rightarrow>
          if a = 0 then ''0''
          else (if s then ''-'' else [])
                 @ format_shortest (shortest_digits a (decimal_exponent a) 1))"

section \<open>JavaScript values\<close>

text \<open>
  The arguments of the service's methods are primitive values; a missing property of the
  argument object is \<open>undefined\<close>.
\<close>

datatype prim = PUndefined | PNull | PBool bool | PNum jsnum | PStr string

text \<open>What the provider's HTTP response body can hold: any JSON value.\<close>

datatype json = JPrim prim | JArr "json list" | JObj "(string \<times> json) list"

text \<open>A thrown value: every exception of this program is an \<open>Error\<close> with a message.\<close>

datatype exn = Error string | TypeError string

fun message :: "exn \<Rightarrow> string" where
  "message (Error m) = m"
| "message (TypeError m) = m"

text \<open>\<open>ToString\<close> on a primitive, as a template literal and \<open>URLSearchParams\<close> apply it.\<close>

fun toStr :: "prim \<Rightarrow> string" where
  "toStr PUndefined = ''undefined''"
| "toStr PNull = ''null''"
| "toStr (PBool b) = (if b then ''true'' else ''false'')"
| "toStr (PNum x) = numToString x"
| "toStr (PStr s) = s"

fun truthy :: "prim \<Rightarrow> bool" where
  "truthy PUndefined = False"
| "truthy PNull = False"
| "truthy (PBool b) = b"
| "truthy (PNum NaN) = False"
| "truthy (PNum (Infinite s)) = True"
| "truthy (PNum (Finite s a)) = (a \<noteq> 0)"
| "truthy (PStr s) = (s \<noteq> [])"

fun truthy_json :: "json \<Rightarrow> bool" where
  "truthy_json (JPrim p) = truthy p"
| "truthy_json (JArr xs) = True"
| "truthy_json (JObj kvs) = True"

text \<open>
  \<open>ToString\<close> on a JSON value.  An array joins its elements with commas, \<open>null\<close> and
  \<open>undefined\<close> elements giving the empty string.  An object gives \<open>[object Object]\<close>,
  unless it has an own property \<open>toString\<close>, which a JSON value cannot make callable:
  then the conversion throws.  Messages are worded as Node words them.
\<close>

fun toString_json :: "json \<Rightarrow> exn + string"
  and join_json :: "json list \<Rightarrow> exn + string" where
  "toString_json (JPrim p) = Inr (toStr p)"
| "toString_json (JArr xs) = join_json xs"
| "toString_json (JObj kvs) =
     (if map_of kvs ''toString'' = None then Inr ''[object Object]''
      else Inl (TypeError ''Cannot convert object to primitive value''))"
| "join_json [] = Inr []"
| "join_json (x # xs) =
     (case (if x = JPrim PUndefined \<or> x = JPrim PNull then Inr [] else toString_json x) of
        Inl e \<Rightarrow> Inl e
      | Inr s \<Rightarrow>
          if xs = [] then Inr s
          else (case join_json xs of Inl e \<Rightarrow> Inl e | Inr t \<Rightarrow> Inr (s @ '','' @ t)))"

text \<open>The message of the \<open>TypeError\<close> for a property read on \<open>undefined\<close> or \<open>null\<close>.\<close>

definition cannot_read :: "string \<Rightarrow> string \<Rightarrow> string" where
  "cannot_read what name =
     ''Cannot read properties of '' @ what @ '' (reading '' @ [CHR 0x27] @ name @ [CHR 0x27] @ '')''"

text \<open>
  Property reads, for the property names this program reads (\<open>code\<close>, \<open>msg\<close>, \<open>data\<close>,
  \<open>toTokenAmount\<close>, \<open>estimatedGas\<close>, \<open>tradeFee\<close>, \<open>priceImpact\<close>, \<open>route\<close>,
  \<open>slippage\<close>): no built-in prototype defines one of them, so only an object's own
  properties can answer.
\<close>

fun get_prop :: "json \<Rightarrow> string \<Rightarrow> exn + json" where
  "get_prop (JPrim PUndefined) name = Inl (TypeError (cannot_read ''undefined'' name))"
| "get_prop (JPrim PNull) name = Inl (TypeError (cannot_read ''null'' name))"
| "get_prop (JObj kvs) name = Inr (case map_of kvs name of None \<Rightarrow> JPrim PUndefined | Some v \<Rightarrow> v)"
| "get_prop v name = Inr (JPrim PUndefined)"

text \<open>Optional chaining \<open>v?.name\<close> and \<open>v?.[0]\<close>.\<close>

fun opt_prop :: "json \<Rightarrow> string \<Rightarrow> json" where
  "opt_prop (JObj kvs) name = (case map_of kvs name of None \<Rightarrow> JPrim PUndefined | Some v \<Rightarrow> v)"
| "opt_prop v name = JPrim PUndefined"

fun opt_first :: "json \<Rightarrow> json" where
  "opt_first (JArr (x # xs)) = x"
| "opt_first (JObj kvs) = (case map_of kvs ''0'' of None \<Rightarrow> JPrim PUndefined | Some v \<Rightarrow> v)"
| "opt_first (JPrim (PStr (c # cs))) = JPrim (PStr [c])"
| "opt_first v = JPrim PUndefined"

text \<open>
  \<open>x.toLowerCase()\<close> on a primitive; \<open>expr\<close> is the source text of \<open>x\<close>, which Node puts
  into the message when \<open>x\<close> has no such method.
\<close>

fun call_toLowerCase :: "string \<Rightarrow> prim \<Rightarrow> exn + string" where
  "call_toLowerCase expr (PStr s) = Inr (toLowerCase s)"
| "call_toLowerCase expr PUndefined = Inl (TypeError (cannot_read ''undefined'' ''toLowerCase''))"
| "call_toLowerCase expr PNull = Inl (TypeError (cannot_read ''null'' ''toLowerCase''))"
| "call_toLowerCase expr v = Inl (TypeError (expr @ ''.toLowerCase is not a function''))"

section \<open>Effects\<close>

record http_request =
  url :: string
  headers :: "(string \<times> string) list"
  timeout :: nat

datatype http_outcome = Resolves json | Rejects string

text \<open>
  The row handed to \<open>prisma.transaction.create\<close>.  The \<open>metadata\<close> column is kept as the
  object given to \<open>JSON.stringify\<close>, not as its serialisation.
\<close>

record tx_data =
  tx_id :: string
  tx_type :: string
  tx_status :: prim
  tx_amount :: jsnum
  tx_currency :: string
  tx_toAddress :: prim
  tx_fromAddress :: prim
  tx_txHash :: prim
  tx_network :: prim
  tx_metadata :: "(string \<times> prim) list"
  tx_createdAt :: string
  tx_updatedAt :: string

datatype clock_site = QuoteTimestamp | SwapTimestamp | MockSwapTimestamp | LogCreatedAt | LogUpdatedAt

text \<open>
  Everything outside the process: the provider behind \<open>axios.get\<close> (it resolves with the
  response body, or rejects with an error message: a transport failure, a timeout, a
  status outside 2xx), the database behind Prisma (\<open>Some m\<close>: the write rejects with
  message \<open>m\<close>), the clock, the random source and the HMAC of \<open>crypto\<close>.
\<close>

record world =
  axios_get :: "http_request \<Rightarrow> http_outcome"
  prisma_create :: "tx_data \<Rightarrow> string option"
  now_iso :: "clock_site \<Rightarrow> string"
  random_hex32 :: "nat \<Rightarrow> string"
  random_uuid :: string
  hmac_sha256_base64 :: "string \<Rightarrow> nat list \<Rightarrow> string"

text \<open>
  What a call does to the outside, in order.  \<open>console.log\<close> lines are informational, cannot
  throw on primitive arguments, and are left out; \<open>console.error\<close> lines are kept, with their
  label (less its leading pictograph) and the message they print.
\<close>

datatype event = HttpGet http_request | DbCreate tx_data | ConsoleError string string

text \<open>A computation: the events it caused, and the value it returned or the exception it threw.\<close>

type_synonym 'a comp = "event list \<times> (exn + 'a)"

definition js_return :: "'a \<Rightarrow> 'a comp" where
  "js_return x = ([], Inr x)"

definition js_lift :: "exn + 'a \<Rightarrow> 'a comp" where
  "js_lift r = ([], r)"

definition js_bind :: "'a comp \<Rightarrow> ('a \<Rightarrow> 'b comp) \<Rightarrow> 'b comp" where
  "js_bind m f =
     (case m of
        (ev, Inl e) \<Rightarrow> (ev, Inl e)
      | (ev, Inr x) \<Rightarrow> (case f x of (ev', r) \<Rightarrow> (ev @ ev', r)))"

definition try_catch :: "'a comp \<Rightarrow> (exn \<Rightarrow> 'a comp) \<Rightarrow> 'a comp" where
  "try_catch m handler =
     (case m of
        (ev, Inl e) \<Rightarrow> (case handler e of (ev', r) \<Rightarrow> (ev @ ev', r))
      | (ev, Inr x) \<Rightarrow> (ev, Inr x))"

definition console_error :: "string \<Rightarrow> string \<Rightarrow> unit comp" where
  "console_error label msg = ([ConsoleError label msg], Inr ())"

definition http_get :: "world \<Rightarrow> http_request \<Rightarrow> json comp" where
  "http_get w req =
     ([HttpGet req], case axios_get w req of Resolves body \<Rightarrow> Inr body | Rejects m \<Rightarrow> Inl (Error m))"

definition db_create :: "world \<Rightarrow> tx_data \<Rightarrow> unit comp" where
  "db_create w row =
     ([DbCreate row], case prisma_create w row of None \<Rightarrow> Inr () | Some m \<Rightarrow> Inl (Error m))"

subsection \<open>\<open>URLSearchParams\<close>\<close>

definition hex_digit :: "nat \<Rightarrow> char" where
  "hex_digit d =
     (if d < 10 then digit_char d
      else if d = 10 then CHR ''A'' else if d = 11 then CHR ''B'' else if d = 12 then CHR ''C''
      else if d = 13 then CHR ''D'' else if d = 14 then CHR ''E'' else CHR ''F'')"

definition percent_byte :: "nat \<Rightarrow> string" where
  "percent_byte b = [CHR ''%'', hex_digit (b div 16), hex_digit (b mod 16)]"

definition form_unreserved :: "nat \<Rightarrow> bool" where
  "form_unreserved n =
     ((48 \<le> n \<and> n \<le> 57) \<or> (65 \<le> n \<and> n \<le> 90) \<or> (97 \<le> n \<and> n \<le> 122)
      \<or> n = 42 \<or> n = 45 \<or> n = 46 \<or> n = 95)"

text \<open>
  The \<open>application/x-www-form-urlencoded\<close> serialisation of one character: a space is
  \<open>+\<close>, and each byte of the UTF-8 form of any other reserved character is escaped.
\<close>

definition form_encode_char :: "char \<Rightarrow> string" where
  "form_encode_char c =
     (if form_unreserved (of_char c) then [c]
      else if (of_char c :: nat) = 32 then ''+''
      else if (of_char c :: nat) < 128 then percent_byte (of_char c)
      else percent_byte (192 + of_char c div 64) @ percent_byte (128 + of_char c mod 64))"

definition form_encode :: "string \<Rightarrow> string" where
  "form_encode s = concat (map form_encode_char s)"

fun join_params :: "(string \<times> string) list \<Rightarrow> string" where
  "join_params [] = []"
| "join_params [(k, v)] = form_encode k @ ''='' @ form_encode v"
| "join_params ((k, v) # kvs) = form_encode k @ ''='' @ form_encode v @ ''&'' @ join_params kvs"

text \<open>\<open>new URLSearchParams(obj).toString()\<close>: every value is converted with \<open>ToString\<close>.\<close>

definition URLSearchParams :: "(string \<times> prim) list \<Rightarrow> string" where
  "URLSearchParams obj = join_params (map (\<lambda>(k, v). (k, toStr v)) obj)"

section \<open>Service configuration\<close>

text \<open>The constructor (lines 216 to 228): the mode and the credentials come from the environment.\<close>

record config =
  apiKey :: string
  secretKey :: string
  passphrase :: string
  projectId :: string
  baseUrl :: string
  testnetMode :: bool

text \<open>\<open>process.env.NAME || fallback\<close>: an unset or empty variable gives the fallback.\<close>

definition env_or :: "(string \<rightharpoonup> string) \<Rightarrow> string \<Rightarrow> string \<Rightarrow> string" where
  "env_or env name fallback =
     (case env name of None \<Rightarrow> fallback | Some v \<Rightarrow> if v = [] then fallback else v)"

definition isTestnetMode :: "(string \<rightharpoonup> string) \<Rightarrow> bool" where
  "isTestnetMode env = (env ''NODE_ENV'' \<noteq> Some ''production'')"

definition constructor_config :: "(string \<rightharpoonup> string) \<Rightarrow> config" where
  "constructor_config env =
     \<lparr> apiKey = env_or env ''OKX_API_KEY'' ''mock-okx-api-key'',
       secretKey = env_or env ''OKX_SECRET_KEY'' ''mock-okx-secret'',
       passphrase = env_or env ''OKX_PASSPHRASE'' ''mock-passphrase'',
       projectId = env_or env ''OKX_PROJECT_ID'' ''mock-project-id'',
       baseUrl = env_or env ''OKX_DEX_BASE_URL'' ''https://web3.okx.com/api/v5/dex'',
       testnetMode = isTestnetMode env \<rparr>"

section \<open>The DEX service\<close>

subsection \<open>Token tables and \<open>getTokenSymbol\<close>\<close>

text \<open>\<open>this.popularTokens\<close> (lines 259 to 266) and \<open>getTokenSymbol\<close> (lines 686 to 696).\<close>

definition popularTokens_base_sepolia :: "(string \<times> string) list" where
  "popularTokens_base_sepolia =
     [(''ETH'', ''0xEeeeeEeeeEeEeeEeEeEeeEEEeeeeEeeeeeeeEEeE''),
      (''WETH'', ''0x4200000000000000000000000000000000000006''),
      (''USDC'', ''0x833589fCD6eDb6E08f4c7C32D4f71b54bdA02913''),
      (''USDT'', ''0xfde4C96c8593536E31F229EA8f37b2ADa2699bb2'')]"

text \<open>
  \<open>this.popularTokens\<close> has the one own key \<open>base-sepolia\<close>.  Reading it at a name that
  \<open>Object.prototype\<close> defines gives the inherited value, a function or the prototype
  itself: truthy, and without enumerable entries.
\<close>

definition object_prototype_keys :: "string list" where
  "object_prototype_keys =
     [''constructor'', ''__defineGetter__'', ''__defineSetter__'', ''hasOwnProperty'',
      ''__lookupGetter__'', ''__lookupSetter__'', ''isPrototypeOf'', ''propertyIsEnumerable'',
      ''toString'', ''valueOf'', ''__proto__'', ''toLocaleString'']"

text \<open>\<open>Object.entries(this.popularTokens[chainId] || this.popularTokens['base-sepolia'])\<close>\<close>

definition chainTokens :: "prim \<Rightarrow> (string \<times> string) list" where
  "chainTokens chainId =
     (if toStr chainId = ''base-sepolia'' then popularTokens_base_sepolia
      else if toStr chainId \<in> set object_prototype_keys then []
      else popularTokens_base_sepolia)"

fun symbol_loop :: "(string \<times> string) list \<Rightarrow> prim \<Rightarrow> exn + string" where
  "symbol_loop [] tokenAddress = Inr ''UNKNOWN''"
| "symbol_loop ((symbol, address) # entries) tokenAddress =
     (case call_toLowerCase ''tokenAddress'' tokenAddress of
        Inl e \<Rightarrow> Inl e
      | Inr t \<Rightarrow> if toLowerCase address = t then Inr symbol else symbol_loop entries tokenAddress)"

definition getTokenSymbol :: "prim \<Rightarrow> prim \<Rightarrow> exn + string" where
  "getTokenSymbol tokenAddress chainId = symbol_loop (chainTokens chainId) tokenAddress"

subsection \<open>\<open>generateAuthHeaders\<close>\<close>

text \<open>Lines 276 to 298.  The callers pass the empty string for a parameter they leave out.\<close>

definition mock_headers :: "(string \<times> string) list" where
  "mock_headers = [(''Content-Type'', ''application/json''), (''X-Mock-Mode'', ''true'')]"

definition generateAuthHeaders ::
  "world \<Rightarrow> config \<Rightarrow> string \<Rightarrow> string \<Rightarrow> string \<Rightarrow> string \<Rightarrow> string \<Rightarrow> (string \<times> string) list" where
  "generateAuthHeaders w cfg timestamp method requestPath queryString body =
     (if testnetMode cfg \<or> apiKey cfg = ''mock-okx-api-key'' then mock_headers
      else [(''Content-Type'', ''application/json''),
            (''OK-ACCESS-KEY'', apiKey cfg),
            (''OK-ACCESS-SIGN'',
               hmac_sha256_base64 w (secretKey cfg)
                 (code_units timestamp @ toUpperCase method @ code_units requestPath
                    @ code_units queryString @ code_units body)),
            (''OK-ACCESS-TIMESTAMP'', timestamp),
            (''OK-ACCESS-PASSPHRASE'', passphrase cfg),
            (''OK-ACCESS-PROJECT'', projectId cfg)])"

subsection \<open>\<open>getSwapQuote\<close>\<close>

text \<open>Lines 426 to 512: the mock branch, the live branch, and the \<open>catch\<close> around both.\<close>

text \<open>The default \<open>slippage = '0.5'\<close> of the parameter list applies to \<open>undefined\<close>.\<close>

definition default_slippage :: "prim \<Rightarrow> prim" where
  "default_slippage slippage = (if slippage = PUndefined then PStr ''0.5'' else slippage)"

text \<open>The mock conversion written inside \<open>getSwapQuote\<close>.\<close>

definition quote_outputAmount :: "string \<Rightarrow> string \<Rightarrow> prim \<Rightarrow> prim" where
  "quote_outputAmount fromSymbol toSymbol amount =
     (if fromSymbol = ''ETH'' \<and> toSymbol = ''USDC''
        then PStr (numToString (fmul (parseFloat (toStr amount)) (lit 2500)))
      else if fromSymbol = ''USDC'' \<and> toSymbol = ''ETH''
        then PStr (numToString (fdiv (parseFloat (toStr amount)) (lit 2500)))
      else if fromSymbol = ''USDC'' \<and> toSymbol = ''USDT''
        then PStr (numToString (fmul (parseFloat (toStr amount)) (lit (999 / 1000))))
      else amount)"

definition mockQuote :: "prim \<Rightarrow> prim \<Rightarrow> prim \<Rightarrow> prim \<Rightarrow> prim \<Rightarrow> prim \<Rightarrow> json" where
  "mockQuote chainId fromTokenAddress toTokenAddress amount outputAmount slippage =
     JObj [(''chainId'', JPrim chainId),
           (''fromTokenAddress'', JPrim fromTokenAddress),
           (''toTokenAddress'', JPrim toTokenAddress),
           (''fromTokenAmount'', JPrim amount),
           (''toTokenAmount'', JPrim outputAmount),
           (''estimatedGas'', JPrim (PStr ''21000'')),
           (''tradeFee'', JPrim (PStr ''0.1'')),
           (''priceImpact'', JPrim (PStr ''0.01'')),
           (''route'', JArr [JObj [(''dexName'', JPrim (PStr ''Uniswap V3'')),
                                   (''percentage'', JPrim (PNum (lit 100)))]]),
           (''slippage'', JPrim slippage)]"

definition quote_success :: "json \<Rightarrow> json" where
  "quote_success d = JObj [(''success'', JPrim (PBool True)), (''data'', d)]"

definition quote_failure :: "string \<Rightarrow> json" where
  "quote_failure m =
     JObj [(''success'', JPrim (PBool False)), (''error'', JPrim (PStr m)), (''data'', JPrim PNull)]"

definition swap_query :: "prim \<Rightarrow> prim \<Rightarrow> prim \<Rightarrow> prim \<Rightarrow> prim \<Rightarrow> prim \<Rightarrow> string" where
  "swap_query chainId fromTokenAddress toTokenAddress amount slippage userWalletAddress =
     URLSearchParams [(''chainId'', chainId),
                      (''fromTokenAddress'', fromTokenAddress),
                      (''toTokenAddress'', toTokenAddress),
                      (''amount'', amount),
                      (''slippage'', slippage),
                      (''userWalletAddress'', userWalletAddress)]"

text \<open>\<open>response.data?.msg || 'Unknown error'\<close>, converted by the template literal.\<close>

definition envelope_msg :: "json \<Rightarrow> exn + string" where
  "envelope_msg body =
     toString_json (if truthy_json (opt_prop body ''msg'') then opt_prop body ''msg''
                    else JPrim (PStr ''Unknown error''))"

text \<open>\<open>response.data?.data?.[0]\<close>\<close>

definition envelope_first :: "json \<Rightarrow> json" where
  "envelope_first body = opt_first (opt_prop body ''data'')"

definition getSwapQuote_mock :: "prim \<Rightarrow> prim \<Rightarrow> prim \<Rightarrow> prim \<Rightarrow> prim \<Rightarrow> json comp" where
  "getSwapQuote_mock chainId fromTokenAddress toTokenAddress amount slippage =
     js_bind (js_lift (getTokenSymbol fromTokenAddress chainId)) (\<lambda>fromSymbol.
     js_bind (js_lift (getTokenSymbol toTokenAddress chainId)) (\<lambda>toSymbol.
       js_return (quote_success
         (mockQuote chainId fromTokenAddress toTokenAddress amount
            (quote_outputAmount fromSymbol toSymbol amount) slippage))))"

definition quote_request :: "world \<Rightarrow> config \<Rightarrow> string \<Rightarrow> http_request" where
  "quote_request w cfg query =
     \<lparr> url = baseUrl cfg @ ''/aggregator/quote'' @ ''?'' @ query,
       headers = generateAuthHeaders w cfg (now_iso w QuoteTimestamp) ''GET''
                   ''/aggregator/quote'' (''?'' @ query) [],
       timeout = 15000 \<rparr>"

definition getSwapQuote_live ::
  "world \<Rightarrow> config \<Rightarrow> prim \<Rightarrow> prim \<Rightarrow> prim \<Rightarrow> prim \<Rightarrow> prim \<Rightarrow> prim \<Rightarrow> json comp" where
  "getSwapQuote_live w cfg chainId fromTokenAddress toTokenAddress amount slippage userWalletAddress =
     js_bind (http_get w (quote_request w cfg
                (swap_query chainId fromTokenAddress toTokenAddress amount slippage userWalletAddress)))
       (\<lambda>body.
          if opt_prop body ''code'' \<noteq> JPrim (PStr ''0'')
          then js_bind (js_lift (envelope_msg body)) (\<lambda>m. js_lift (Inl (Error (''OKX API Error: '' @ m))))
          else js_return (quote_success
                 (if truthy_json (envelope_first body) then envelope_first body else JPrim PNull)))"

text \<open>The \<open>try\<close> block of \<open>getSwapQuote\<close>, then the method with its \<open>catch\<close>.\<close>

definition getSwapQuote_try ::
  "world \<Rightarrow> config \<Rightarrow> prim \<Rightarrow> prim \<Rightarrow> prim \<Rightarrow> prim \<Rightarrow> prim \<Rightarrow> prim \<Rightarrow> json comp" where
  "getSwapQuote_try w cfg chainId fromTokenAddress toTokenAddress amount slippage userWalletAddress =
     (if testnetMode cfg
      then getSwapQuote_mock chainId fromTokenAddress toTokenAddress amount slippage
      else getSwapQuote_live w cfg chainId fromTokenAddress toTokenAddress amount slippage
             userWalletAddress)"

definition getSwapQuote ::
  "world \<Rightarrow> config \<Rightarrow> prim \<Rightarrow> prim \<Rightarrow> prim \<Rightarrow> prim \<Rightarrow> prim \<Rightarrow> prim \<Rightarrow> json comp" where
  "getSwapQuote w cfg chainId fromTokenAddress toTokenAddress amount slippage userWalletAddress =
     try_catch
       (getSwapQuote_try w cfg chainId fromTokenAddress toTokenAddress amount
          (default_slippage slippage) userWalletAddress)
       (\<lambda>error.
          js_bind (console_error ''Error getting swap quote:'' (message error)) (\<lambda>_.
            js_return (quote_failure (message error))))"

subsection \<open>\<open>calculateMockSwapOutput\<close>\<close>

text \<open>Lines 701 to 721: the rate table and the fee of the mock execution.\<close>

definition rates :: "(string \<times> jsnum) list" where
  "rates =
     [(''ETH_USDC'', lit 2500),
      (''ETH_USDT'', lit 2500),
      (''USDC_ETH'', fdiv (lit 1) (lit 2500)),
      (''USDT_ETH'', fdiv (lit 1) (lit 2500)),
      (''USDC_USDT'', lit (999 / 1000)),
      (''USDT_USDC'', lit (1001 / 1000)),
      (''WETH_ETH'', lit 1),
      (''ETH_WETH'', lit 1)]"

text \<open>\<open>rates[rateKey] || 1\<close>\<close>

definition rate_of :: "string \<Rightarrow> string \<Rightarrow> jsnum" where
  "rate_of fromSymbol toSymbol =
     (case map_of rates (fromSymbol @ ''_'' @ toSymbol) of
        None \<Rightarrow> lit 1
      | Some r \<Rightarrow> if truthy (PNum r) then r else lit 1)"

definition calculateMockSwapOutput :: "prim \<Rightarrow> prim \<Rightarrow> prim \<Rightarrow> prim \<Rightarrow> exn + string" where
  "calculateMockSwapOutput fromToken toToken amount chainId =
     (case getTokenSymbol fromToken chainId of
        Inl e \<Rightarrow> Inl e
      | Inr fromSymbol \<Rightarrow>
          (case getTokenSymbol toToken chainId of
             Inl e \<Rightarrow> Inl e
           | Inr toSymbol \<Rightarrow>
               Inr (numToString
                      (fmul (fmul (parseFloat (toStr amount)) (rate_of fromSymbol toSymbol))
                         (lit (997 / 1000))))))"

subsection \<open>\<open>logSwapTransaction\<close>\<close>

text \<open>
  Lines 726 to 756.  The row is built first, and building it can throw (the currency is looked
  up with \<open>getTokenSymbol\<close>); then the write is attempted; the \<open>catch\<close> prints the message.
\<close>

record swap_data =
  sd_paymentRequestId :: prim
  sd_fromToken :: prim
  sd_toToken :: prim
  sd_fromAmount :: prim
  sd_toAmount :: prim
  sd_transactionHash :: prim
  sd_chainId :: prim
  sd_status :: prim

definition swap_row :: "world \<Rightarrow> swap_data \<Rightarrow> string \<Rightarrow> tx_data" where
  "swap_row w sd currency =
     \<lparr> tx_id = random_uuid w,
       tx_type = ''SWAP'',
       tx_status = (if truthy (sd_status sd) then sd_status sd else PStr ''PENDING''),
       tx_amount = parseFloat (toStr (sd_fromAmount sd)),
       tx_currency = currency,
       tx_toAddress = sd_toToken sd,
       tx_fromAddress = sd_fromToken sd,
       tx_txHash = sd_transactionHash sd,
       tx_network = sd_chainId sd,
       tx_metadata = [(''paymentRequestId'', sd_paymentRequestId sd),
                      (''fromToken'', sd_fromToken sd),
                      (''toToken'', sd_toToken sd),
                      (''fromAmount'', sd_fromAmount sd),
                      (''toAmount'', sd_toAmount sd),
                      (''swapProvider'', PStr ''OKX_DEX'')],
       tx_createdAt = now_iso w LogCreatedAt,
       tx_updatedAt = now_iso w LogUpdatedAt \<rparr>"

definition logSwapTransaction_try :: "world \<Rightarrow> swap_data \<Rightarrow> unit comp" where
  "logSwapTransaction_try w sd =
     js_bind (js_lift (getTokenSymbol (sd_fromToken sd) (sd_chainId sd))) (\<lambda>currency.
       db_create w (swap_row w sd currency))"

definition logSwapTransaction :: "world \<Rightarrow> swap_data \<Rightarrow> unit comp" where
  "logSwapTransaction w sd =
     try_catch (logSwapTransaction_try w sd)
       (\<lambda>error. console_error ''Error logging swap transaction:'' (message error))"

subsection \<open>\<open>executeSwap\<close>\<close>

text \<open>
  Lines 517 to 618.  In testnet mode the result is made up locally, and the audit record is
  written when a payment request id is given; in live mode a quote is fetched first, then the
  swap is requested from the provider.
\<close>

definition mockSwapResult :: "world \<Rightarrow> prim \<Rightarrow> string \<Rightarrow> json" where
  "mockSwapResult w amount output =
     JObj [(''success'', JPrim (PBool True)),
           (''transactionHash'', JPrim (PStr (''0x'' @ random_hex32 w 0))),
           (''fromTokenAmount'', JPrim amount),
           (''toTokenAmount'', JPrim (PStr output)),
           (''gasUsed'', JPrim (PStr ''21000'')),
           (''gasPrice'', JPrim (PStr ''20000000000'')),
           (''tradeFee'', JPrim (PStr ''0.1'')),
           (''timestamp'', JPrim (PStr (now_iso w MockSwapTimestamp))),
           (''explorerUrl'',
              JPrim (PStr (''https://sepolia.basescan.org/tx/0x'' @ random_hex32 w 1)))]"

definition executeSwap_mock ::
  "world \<Rightarrow> prim \<Rightarrow> prim \<Rightarrow> prim \<Rightarrow> prim \<Rightarrow> prim \<Rightarrow> json comp" where
  "executeSwap_mock w chainId fromTokenAddress toTokenAddress amount paymentRequestId =
     js_bind (js_lift (calculateMockSwapOutput fromTokenAddress toTokenAddress amount chainId))
       (\<lambda>output.
          js_bind
            (if truthy paymentRequestId
             then logSwapTransaction w
                    \<lparr> sd_paymentRequestId = paymentRequestId,
                      sd_fromToken = fromTokenAddress,
                      sd_toToken = toTokenAddress,
                      sd_fromAmount = amount,
                      sd_toAmount = PStr output,
                      sd_transactionHash = PStr (''0x'' @ random_hex32 w 0),
                      sd_chainId = chainId,
                      sd_status = PStr ''completed'' \<rparr>
             else js_return ())
            (\<lambda>_. js_return (mockSwapResult w amount output)))"

definition swap_request :: "world \<Rightarrow> config \<Rightarrow> string \<Rightarrow> http_request" where
  "swap_request w cfg query =
     \<lparr> url = baseUrl cfg @ ''/aggregator/swap'' @ ''?'' @ query,
       headers = generateAuthHeaders w cfg (now_iso w SwapTimestamp) ''GET''
                   ''/aggregator/swap'' (''?'' @ query) [],
       timeout = 30000 \<rparr>"

definition swap_response :: "json \<Rightarrow> json comp" where
  "swap_response body =
     (if opt_prop body ''code'' \<noteq> JPrim (PStr ''0'')
      then js_bind (js_lift (envelope_msg body)) (\<lambda>m. js_lift (Inl (Error (''OKX Swap Error: '' @ m))))
      else if \<not> truthy_json (envelope_first body)
      then js_lift (Inl (Error ''No swap data received from OKX API''))
      else js_bind (js_lift (get_prop (envelope_first body) ''data'')) (\<lambda>transactionData.
             js_return (JObj [(''success'', JPrim (PBool True)),
                              (''data'', envelope_first body),
                              (''transactionData'', transactionData)])))"

definition executeSwap_live ::
  "world \<Rightarrow> config \<Rightarrow> prim \<Rightarrow> prim \<Rightarrow> prim \<Rightarrow> prim \<Rightarrow> prim \<Rightarrow> prim \<Rightarrow> json comp" where
  "executeSwap_live w cfg chainId fromTokenAddress toTokenAddress amount slippage userWalletAddress =
     js_bind (getSwapQuote w cfg chainId fromTokenAddress toTokenAddress amount slippage
                userWalletAddress)
       (\<lambda>quoteResult.
          if \<not> truthy_json (opt_prop quoteResult ''success'')
          then js_bind (js_lift (toString_json (opt_prop quoteResult ''error''))) (\<lambda>m.
                 js_lift (Inl (Error (''Failed to get quote: '' @ m))))
          else js_bind (http_get w (swap_request w cfg
                          (swap_query chainId fromTokenAddress toTokenAddress amount slippage
                             userWalletAddress)))
                 swap_response)"

definition executeSwap ::
  "world \<Rightarrow> config \<Rightarrow> prim \<Rightarrow> prim \<Rightarrow> prim \<Rightarrow> prim \<Rightarrow> prim \<Rightarrow> prim \<Rightarrow> prim \<Rightarrow> json comp" where
  "executeSwap w cfg chainId fromTokenAddress toTokenAddress amount slippage userWalletAddress
     paymentRequestId =
     try_catch
       (if testnetMode cfg
        then executeSwap_mock w chainId fromTokenAddress toTokenAddress amount paymentRequestId
        else executeSwap_live w cfg chainId fromTokenAddress toTokenAddress amount
               (default_slippage slippage) userWalletAddress)
       (\<lambda>error.
          js_bind (console_error ''Error executing swap:'' (message error)) (\<lambda>_.
            js_return (JObj [(''success'', JPrim (PBool False)),
                             (''error'', JPrim (PStr (message error)))])))"

subsection \<open>\<open>calculatePaymentRoute\<close>\<close>

text \<open>
  Lines 623 to 681.  The method has one parameter, which its parameter list destructures
  (lines 623 to 629), before the \<open>try\<close> of line 630 is entered.  The argument of a call is
  a primitive value (\<open>undefined\<close> when the call passes none) or an object.  Of an object
  the method reads five properties; their values are primitive, and a property that the
  object lacks is \<open>undefined\<close>.
\<close>

record route_request =
  rr_payerPreferredToken :: prim
  rr_payeeRequiredToken :: prim
  rr_amount :: prim
  rr_chainId :: prim
  rr_userWalletAddress :: prim

datatype argument = ArgPrim prim | ArgObject route_request

text \<open>
  Destructuring \<open>undefined\<close> or \<open>null\<close> throws a \<open>TypeError\<close> that names the first
  property of the pattern.  Any other primitive is converted to an object, which has none
  of the five properties.
\<close>

definition cannot_destructure :: "string \<Rightarrow> string \<Rightarrow> string \<Rightarrow> string" where
  "cannot_destructure name what short =
     ''Cannot destructure property '' @ [CHR 0x27] @ name @ [CHR 0x27] @ '' of '' @ [CHR 0x27]
       @ what @ [CHR 0x27] @ '' as it is '' @ short @ ''.''"

definition destructure :: "argument \<Rightarrow> exn + route_request" where
  "destructure argument =
     (case argument of
        ArgPrim PUndefined \<Rightarrow>
          Inl (TypeError (cannot_destructure ''payerPreferredToken'' ''undefined'' ''undefined''))
      | ArgPrim PNull \<Rightarrow>
          Inl (TypeError (cannot_destructure ''payerPreferredToken'' ''object null'' ''null''))
      | ArgPrim v \<Rightarrow>
          Inr \<lparr> rr_payerPreferredToken = PUndefined, rr_payeeRequiredToken = PUndefined,
                rr_amount = PUndefined, rr_chainId = PUndefined, rr_userWalletAddress = PUndefined \<rparr>
      | ArgObject r \<Rightarrow> Inr r)"

text \<open>
  The quote is asked for without a slippage, so the default applies.  The object
  \<open>getSwapQuote\<close> returns always has the properties read here.
\<close>

definition direct_route :: "prim \<Rightarrow> json" where
  "direct_route amount =
     JObj [(''swapRequired'', JPrim (PBool False)),
           (''directPayment'', JPrim (PBool True)),
           (''inputAmount'', JPrim amount),
           (''outputAmount'', JPrim amount),
           (''route'', JPrim (PStr ''direct''))]"

definition no_route :: "json \<Rightarrow> json" where
  "no_route reason =
     JObj [(''swapRequired'', JPrim (PBool True)),
           (''swapPossible'', JPrim (PBool False)),
           (''error'', reason)]"

definition swap_route :: "prim \<Rightarrow> json \<Rightarrow> json comp" where
  "swap_route amount quote =
     js_bind (js_lift (get_prop quote ''toTokenAmount'')) (\<lambda>toTokenAmount.
     js_bind (js_lift (get_prop quote ''estimatedGas'')) (\<lambda>estimatedGas.
     js_bind (js_lift (get_prop quote ''tradeFee'')) (\<lambda>tradeFee.
     js_bind (js_lift (get_prop quote ''priceImpact'')) (\<lambda>priceImpact.
     js_bind (js_lift (get_prop quote ''route'')) (\<lambda>route.
     js_bind (js_lift (get_prop quote ''slippage'')) (\<lambda>slippage.
       js_return (JObj [(''swapRequired'', JPrim (PBool True)),
                        (''swapPossible'', JPrim (PBool True)),
                        (''inputAmount'', JPrim amount),
                        (''outputAmount'', toTokenAmount),
                        (''estimatedGas'', estimatedGas),
                        (''tradeFee'', tradeFee),
                        (''priceImpact'', priceImpact),
                        (''route'', route),
                        (''slippage'', slippage)])))))))"

definition calculatePaymentRoute_try ::
  "world \<Rightarrow> config \<Rightarrow> prim \<Rightarrow> prim \<Rightarrow> prim \<Rightarrow> prim \<Rightarrow> prim \<Rightarrow> json comp" where
  "calculatePaymentRoute_try w cfg payerPreferredToken payeeRequiredToken amount chainId
     userWalletAddress =
     js_bind (js_lift (call_toLowerCase ''payerPreferredToken'' payerPreferredToken)) (\<lambda>payer.
     js_bind (js_lift (call_toLowerCase ''payeeRequiredToken'' payeeRequiredToken)) (\<lambda>payee.
       if payer = payee then js_return (direct_route amount)
       else js_bind (getSwapQuote w cfg chainId payerPreferredToken payeeRequiredToken amount
                       PUndefined userWalletAddress)
              (\<lambda>quoteResult.
                 if \<not> truthy_json (opt_prop quoteResult ''success'')
                 then js_return (no_route (opt_prop quoteResult ''error''))
                 else swap_route amount (opt_prop quoteResult ''data''))))"

text \<open>The method: the destructuring of its argument, then the \<open>try\<close> with its \<open>catch\<close>.\<close>

definition calculatePaymentRoute :: "world \<Rightarrow> config \<Rightarrow> argument \<Rightarrow> json comp" where
  "calculatePaymentRoute w cfg argument =
     js_bind (js_lift (destructure argument)) (\<lambda>r.
       try_catch
         (calculatePaymentRoute_try w cfg (rr_payerPreferredToken r) (rr_payeeRequiredToken r)
            (rr_amount r) (rr_chainId r) (rr_userWalletAddress r))
         (\<lambda>error.
            js_bind (console_error ''Error calculating payment route:'' (message error)) (\<lambda>_.
              js_return (no_route (JPrim (PStr (message error)))))))"

section \<open>Case-insensitive equality, as the specification words it\<close>




section \<open>The resolved route\<close>

text \<open>The object \<open>calculatePaymentRoute\<close> builds from a quote that it accepts.\<close>

definition resolved_route :: "prim \<Rightarrow> json \<Rightarrow> json" where
  "resolved_route amount quote =
     JObj [(''swapRequired'', JPrim (PBool True)),
           (''swapPossible'', JPrim (PBool True)),
           (''inputAmount'', JPrim amount),
           (''outputAmount'', opt_prop quote ''toTokenAmount''),
           (''estimatedGas'', opt_prop quote ''estimatedGas''),
           (''tradeFee'', opt_prop quote ''tradeFee''),
           (''priceImpact'', opt_prop quote ''priceImpact''),
           (''route'', opt_prop quote ''route''),
           (''slippage'', opt_prop quote ''slippage'')]"

section \<open>Numbers that are not negative\<close>



section \<open>Concrete configurations and environments\<close>

definition ETH_address :: string where
  "ETH_address = ''0xEeeeeEeeeEeEeeEeEeEeeEEEeeeeEeeeeeeeEEeE''"

definition USDC_address :: string where
  "USDC_address = ''0x833589fCD6eDb6E08f4c7C32D4f71b54bdA02913''"

definition USDT_address :: string where
  "USDT_address = ''0xfde4C96c8593536E31F229EA8f37b2ADa2699bb2''"

text \<open>No environment variable set: testnet mode.\<close>

definition testnet_config :: config where
  "testnet_config = constructor_config Map.empty"

text \<open>Production mode, no credential configured.\<close>

definition production_env :: "string \<rightharpoonup> string" where
  "production_env = [''NODE_ENV'' \<mapsto> ''production'']"

definition production_config :: config where
  "production_config = constructor_config production_env"

definition base_world :: world where
  "base_world =
     \<lparr> axios_get = (\<lambda>req. Rejects ''timeout of 15000ms exceeded''),
       prisma_create = (\<lambda>row. None),
       now_iso = (\<lambda>site. ''2025-06-26T15:31:38.000Z''),
       random_hex32 = (\<lambda>n. ''ab''),
       random_uuid = ''6f1c'',
       hmac_sha256_base64 = (\<lambda>key msg. ''c2ln'') \<rparr>"


text \<open>A provider that answers with code \<open>0\<close> and a quote without any field.\<close>

definition fieldless_world :: world where
  "fieldless_world =
     base_world\<lparr> axios_get := (\<lambda>req. Resolves (JObj [(''code'', JPrim (PStr ''0'')),
                                                     (''data'', JArr [JObj []])])) \<rparr>"

text \<open>A database that refuses every write.\<close>

definition failing_db_world :: world where
  "failing_db_world = base_world\<lparr> prisma_create := (\<lambda>row. Some ''database unreachable'') \<rparr>"

text \<open>The audit record of a completed swap of one ETH.\<close>

definition logged_swap :: swap_data where
  "logged_swap =
     \<lparr> sd_paymentRequestId = PStr ''pay_1'',
       sd_fromToken = PStr ETH_address,
       sd_toToken = PStr USDC_address,
       sd_fromAmount = PStr ''1'',
       sd_toAmount = PStr ''2492.5'',
       sd_transactionHash = PStr ''0xab'',
       sd_chainId = PStr ''84532'',
       sd_status = PStr ''completed'' \<rparr>"

section \<open>Evaluation lemmas\<close>

text \<open>
  The definitions compute.  Floors and ceilings of rational numerals reduce to integer
  division, and the three sets of equations below evaluate rounding, \<open>parseFloat\<close> and
  \<open>Number.prototype.toString\<close> on concrete arguments by rewriting.
\<close>

lemmas comp_defs = js_bind_def js_lift_def js_return_def try_catch_def console_error_def http_get_def db_create_def

lemma floor_rat_numeral: "\<lfloor>(numeral a :: rat) / numeral b\<rfloor> = numeral a div numeral b"
  using floor_divide_of_int_eq[of "numeral a" "numeral b", where ?'a = rat] by simp

lemma ceiling_rat_numeral: "\<lceil>(numeral a :: rat) / numeral b\<rceil> = - ((- numeral a) div numeral b)"
  using ceiling_divide_eq_div[of "numeral a" "numeral b", where ?'a = rat] by simp

lemma replicate_numeral_unfold: "replicate (numeral k) x = x # replicate (pred_numeral k) x"
  by (simp add: numeral_eq_Suc)

lemmas round_eval = round64_def overflow_check_def round_to_unit_def round_half_even_def half_even_def
  pow2_def pow10_def binary_exponent.simps lit_def floor_rat_numeral ceiling_rat_numeral

lemmas parse_eval = parseFloat_def parse_unsigned_def parse_decimal_def after_fraction_def
  fraction_digits_def strip_sign_def is_whitespace_def is_digit_def digits_val_def digit_val_def
  parse_exponent_def signed_digits_def

lemmas print_eval = numToString_def format_shortest_def format_digits_def exponent_suffix_def
  shortest_digits.simps digits_of_length_def choose_digits_def closer_def reads_back_def
  upper_candidate_def decimal_value_def decimal_exponent_def show_nat.simps digit_char_def
  replicate_numeral_unfold

lemma symbol_ETH: "getTokenSymbol (PStr ETH_address) (PStr ''84532'') = Inr ''ETH''"
  by code_simp

lemma symbol_USDC: "getTokenSymbol (PStr USDC_address) (PStr ''84532'') = Inr ''USDC''"
  by code_simp

lemma symbol_USDT: "getTokenSymbol (PStr USDT_address) (PStr ''84532'') = Inr ''USDT''"
  by code_simp

lemma testnet_config_mode: "testnetMode testnet_config"
  by (simp add: testnet_config_def constructor_config_def isTestnetMode_def)

lemma production_config_mode: "\<not> testnetMode production_config" "apiKey production_config = ''mock-okx-api-key''"
  by (simp_all add: production_config_def production_env_def constructor_config_def isTestnetMode_def env_or_def)

lemma lit_2500: "lit 2500 = Finite False 2500"
  by (simp add: round_eval)


lemma lit_997: "lit (997 / 1000) = Finite False (8980177656976769 / 9007199254740992)"
  by (simp add: round_eval)

lemma lit_999: "lit (999 / 1000) = Finite False (8998192055486251 / 9007199254740992)"
  by (simp add: round_eval)


subsection \<open>Case-insensitive comparison\<close>




lemma ETH_USDC_differ: "toLowerCase ETH_address \<noteq> toLowerCase USDC_address"
  by code_simp

subsection \<open>Computations that return\<close>

text \<open>
  A \<open>try\<close> whose handler returns, returns.  So \<open>getSwapQuote\<close> always returns one of its two
  objects, \<open>logSwapTransaction\<close> always returns, and \<open>calculatePaymentRoute\<close> always returns
  one of its three objects.
\<close>

lemma symbol_loop_string: "\<exists>s. symbol_loop entries (PStr a) = Inr s"
  by (induction entries) auto

lemma getTokenSymbol_string: "\<exists>s. getTokenSymbol (PStr a) chainId = Inr s"
  by (simp add: getTokenSymbol_def symbol_loop_string)

lemma try_catch_returns:
  assumes "\<And>e. \<exists>ev y. handler e = (ev, Inr y)"
  shows "\<exists>ev y. try_catch m handler = (ev, Inr y)"
proof (cases m)
  case (Pair ev r)
  show ?thesis
  proof (cases r)
    case (Inl e)
    from assms[of e] obtain ev' y where "handler e = (ev', Inr y)" by blast
    with Pair Inl show ?thesis by (simp add: try_catch_def)
  next
    case (Inr x)
    with Pair show ?thesis by (simp add: try_catch_def)
  qed
qed

lemma getSwapQuote_try_shape:
  "getSwapQuote_try w cfg c f t a s u = (ev, Inr r) \<Longrightarrow> \<exists>d. r = quote_success d"
  by (auto simp: getSwapQuote_try_def getSwapQuote_mock_def getSwapQuote_live_def comp_defs
           split: if_splits sum.splits http_outcome.splits prod.splits)

lemma getSwapQuote_shape:
  "\<exists>ev r. getSwapQuote w cfg c f t a s u = (ev, Inr r)
          \<and> ((\<exists>d. r = quote_success d) \<or> (\<exists>m. r = quote_failure m))"
proof (cases "getSwapQuote_try w cfg c f t a (default_slippage s) u")
  case (Pair ev r)
  show ?thesis
  proof (cases r)
    case (Inl e)
    with Pair show ?thesis by (auto simp: getSwapQuote_def comp_defs)
  next
    case (Inr x)
    with Pair getSwapQuote_try_shape[of w cfg c f t a "default_slippage s" u ev x]
    show ?thesis by (auto simp: getSwapQuote_def comp_defs)
  qed
qed

lemma logSwapTransaction_returns: "\<exists>ev. logSwapTransaction w sd = (ev, Inr ())"
  using try_catch_returns[of "\<lambda>error. console_error ''Error logging swap transaction:'' (message error)"
      "logSwapTransaction_try w sd"]
  by (simp add: logSwapTransaction_def console_error_def)

lemma quote_failure_fields:
  "truthy_json (opt_prop (quote_failure m) ''success'') = False"
  "opt_prop (quote_failure m) ''error'' = JPrim (PStr m)"
  by (simp_all add: quote_failure_def)

lemma quote_success_fields:
  "truthy_json (opt_prop (quote_success d) ''success'') = True"
  "opt_prop (quote_success d) ''data'' = d"
  by (simp_all add: quote_success_def)

lemma destructure_object: "destructure (ArgObject r) = Inr r"
  by (simp add: destructure_def)

lemma route_of_failed_quote:
  assumes "rr_payerPreferredToken r = PStr p" and "rr_payeeRequiredToken r = PStr q"
    and "toLowerCase p \<noteq> toLowerCase q"
    and "getSwapQuote w cfg (rr_chainId r) (PStr p) (PStr q) (rr_amount r) PUndefined
           (rr_userWalletAddress r) = (ev, Inr (quote_failure m))"
  shows "calculatePaymentRoute w cfg (ArgObject r) = (ev, Inr (no_route (JPrim (PStr m))))"
  using assms
  by (simp add: calculatePaymentRoute_def destructure_object calculatePaymentRoute_try_def comp_defs
      quote_failure_fields)

lemma route_of_thrown:
  assumes "calculatePaymentRoute_try w cfg (rr_payerPreferredToken r) (rr_payeeRequiredToken r)
             (rr_amount r) (rr_chainId r) (rr_userWalletAddress r) = (ev, Inl e)"
  shows "calculatePaymentRoute w cfg (ArgObject r) =
           (ev @ [ConsoleError ''Error calculating payment route:'' (message e)],
            Inr (no_route (JPrim (PStr (message e)))))"
  using assms by (simp add: calculatePaymentRoute_def destructure_object comp_defs)

lemma get_prop_opt: "get_prop v name = Inr x \<Longrightarrow> x = opt_prop v name"
  by (cases "(v, name)" rule: get_prop.cases) auto

lemma get_prop_again: "get_prop v name = Inr x \<Longrightarrow> get_prop v name' = Inr (opt_prop v name')"
  by (cases "(v, name)" rule: get_prop.cases) auto

lemma swap_route_cases:
  "swap_route a d = ([], Inr (resolved_route a d)) \<or> (\<exists>e. swap_route a d = ([], Inl e))"
proof (cases "get_prop d ''toTokenAmount''")
  case (Inl e)
  then show ?thesis by (simp add: swap_route_def comp_defs)
next
  case (Inr x)
  from get_prop_opt[OF Inr] get_prop_again[OF Inr] Inr
  show ?thesis by (simp add: swap_route_def comp_defs resolved_route_def)
qed

lemma calculatePaymentRoute_try_cases:
  "(\<exists>ev e. calculatePaymentRoute_try w cfg p q a c u = (ev, Inl e))
   \<or> (\<exists>ev. calculatePaymentRoute_try w cfg p q a c u = (ev, Inr (direct_route a)))
   \<or> (\<exists>ev m. calculatePaymentRoute_try w cfg p q a c u = (ev, Inr (no_route (JPrim (PStr m)))))
   \<or> (\<exists>ev d. calculatePaymentRoute_try w cfg p q a c u = (ev, Inr (resolved_route a d)))"
proof (cases "call_toLowerCase ''payerPreferredToken'' p")
  case (Inl e)
  then show ?thesis by (simp add: calculatePaymentRoute_try_def comp_defs)
next
  case payer: (Inr lp)
  show ?thesis
  proof (cases "call_toLowerCase ''payeeRequiredToken'' q")
    case (Inl e)
    with payer show ?thesis by (simp add: calculatePaymentRoute_try_def comp_defs)
  next
    case payee: (Inr lq)
    show ?thesis
    proof (cases "lp = lq")
      case True
      with payer payee show ?thesis by (simp add: calculatePaymentRoute_try_def comp_defs)
    next
      case False
      from getSwapQuote_shape[of w cfg c p q a PUndefined u]
      obtain ev r where q: "getSwapQuote w cfg c p q a PUndefined u = (ev, Inr r)"
        and shape: "(\<exists>d. r = quote_success d) \<or> (\<exists>m. r = quote_failure m)" by blast
      from shape show ?thesis
      proof
        assume "\<exists>d. r = quote_success d"
        then obtain d where r: "r = quote_success d" ..
        from swap_route_cases[of a d] payer payee False q r show ?thesis
          by (auto simp: calculatePaymentRoute_try_def comp_defs quote_success_fields)
      next
        assume "\<exists>m. r = quote_failure m"
        then obtain m where r: "r = quote_failure m" ..
        with payer payee False q show ?thesis
          by (auto simp: calculatePaymentRoute_try_def comp_defs quote_failure_fields)
      qed
    qed
  qed
qed

lemma calculatePaymentRoute_cases:
  "\<exists>ev v. calculatePaymentRoute w cfg (ArgObject r) = (ev, Inr v)
        \<and> (v = direct_route (rr_amount r) \<or> (\<exists>m. v = no_route (JPrim (PStr m)))
             \<or> (\<exists>d. v = resolved_route (rr_amount r) d))"
  using calculatePaymentRoute_try_cases[of w cfg "rr_payerPreferredToken r" "rr_payeeRequiredToken r"
      "rr_amount r" "rr_chainId r" "rr_userWalletAddress r"]
  by (auto simp: calculatePaymentRoute_def destructure_object comp_defs)

lemma route_of_accepted_quote:
  assumes "rr_payerPreferredToken r = PStr p" and "rr_payeeRequiredToken r = PStr q"
    and "toLowerCase p \<noteq> toLowerCase q"
    and "\<not> testnetMode cfg"
    and "axios_get w (quote_request w cfg
           (swap_query (rr_chainId r) (PStr p) (PStr q) (rr_amount r) (PStr ''0.5'')
              (rr_userWalletAddress r))) = Resolves body"
    and "opt_prop body ''code'' = JPrim (PStr ''0'')"
    and "truthy_json (envelope_first body)"
  shows "snd (calculatePaymentRoute w cfg (ArgObject r))
         = Inr (resolved_route (rr_amount r) (envelope_first body))"
proof -
  from assms(7) have "\<exists>x. get_prop (envelope_first body) ''toTokenAmount'' = Inr x"
    by (cases "(envelope_first body, ''toTokenAmount'')" rule: get_prop.cases) auto
  then obtain x where x: "get_prop (envelope_first body) ''toTokenAmount'' = Inr x" ..
  from x get_prop_opt[OF x] get_prop_again[OF x]
  have route: "swap_route (rr_amount r) (envelope_first body)
               = ([], Inr (resolved_route (rr_amount r) (envelope_first body)))"
    by (simp add: swap_route_def comp_defs resolved_route_def)
  from assms route show ?thesis
    by (simp add: calculatePaymentRoute_def destructure_object calculatePaymentRoute_try_def
        getSwapQuote_def getSwapQuote_try_def getSwapQuote_live_def comp_defs default_slippage_def
        quote_success_fields)
qed

lemma route_of_primitive:
  assumes "v \<noteq> PUndefined" and "v \<noteq> PNull"
  shows "calculatePaymentRoute w cfg (ArgPrim v) =
           ([ConsoleError ''Error calculating payment route:'' (cannot_read ''undefined'' ''toLowerCase'')],
            Inr (no_route (JPrim (PStr (cannot_read ''undefined'' ''toLowerCase'')))))"
  using assms
  by (cases v) (simp_all add: calculatePaymentRoute_def destructure_def calculatePaymentRoute_try_def comp_defs)

lemma route_of_nullish:
  "calculatePaymentRoute w cfg (ArgPrim PUndefined) =
     ([], Inl (TypeError (cannot_destructure ''payerPreferredToken'' ''undefined'' ''undefined'')))"
  "calculatePaymentRoute w cfg (ArgPrim PNull) =
     ([], Inl (TypeError (cannot_destructure ''payerPreferredToken'' ''object null'' ''null'')))"
  by (simp_all add: calculatePaymentRoute_def destructure_def comp_defs)


lemma live_quote_transport_error:
  assumes "\<not> testnetMode cfg"
    and "axios_get w (quote_request w cfg (swap_query c f t a (default_slippage s) u)) = Rejects m"
  shows "getSwapQuote w cfg c f t a s u =
           ([HttpGet (quote_request w cfg (swap_query c f t a (default_slippage s) u)),
             ConsoleError ''Error getting swap quote:'' m], Inr (quote_failure m))"
  using assms
  by (auto simp: getSwapQuote_def getSwapQuote_try_def getSwapQuote_live_def comp_defs split: sum.splits)

lemma live_quote_trace:
  assumes "\<not> testnetMode cfg"
  shows "\<exists>rest. fst (getSwapQuote w cfg c f t a s u) =
           HttpGet (quote_request w cfg (swap_query c f t a (default_slippage s) u)) # rest"
  using assms
  by (auto simp: getSwapQuote_def getSwapQuote_try_def getSwapQuote_live_def comp_defs
           split: sum.splits http_outcome.splits)

lemma testnet_quote:
  assumes "testnetMode cfg" and "getTokenSymbol f c = Inr fs" and "getTokenSymbol t c = Inr ts"
  shows "getSwapQuote w cfg c f t a s u =
           ([], Inr (quote_success (mockQuote c f t a (quote_outputAmount fs ts a) (default_slippage s))))"
  using assms by (simp add: getSwapQuote_def getSwapQuote_try_def getSwapQuote_mock_def comp_defs)


subsection \<open>Numbers of the examples\<close>

lemma parse_1: "parseFloat ''1'' = Finite False 1"
  by (simp add: round_eval parse_eval)

lemma parse_100: "parseFloat ''100'' = Finite False 100"
  by (simp add: round_eval parse_eval)

lemma parse_0: "parseFloat ''0'' = Finite False 0"
  by (simp add: round_eval parse_eval)

lemma parse_empty: "parseFloat [] = NaN"
  by (simp add: parse_eval)

lemma print_2500: "numToString (Finite False 2500) = ''2500''"
  by (simp add: round_eval print_eval)

lemma print_2492_5: "numToString (Finite False (4985 / 2)) = ''2492.5''"
  by (simp add: round_eval print_eval)

lemma print_99_9: "numToString (Finite False (3514918771674317 / 35184372088832)) = ''99.9''"
  by (simp add: round_eval print_eval)

lemma print_99_6003: "numToString (Finite False (1752187007679647 / 17592186044416)) = ''99.6003''"
  by (simp add: round_eval print_eval)

lemma print_0: "numToString (Finite s 0) = ''0''"
  by (simp add: numToString_def)

lemma print_NaN: "numToString NaN = ''NaN''"
  by (simp add: numToString_def)

lemma mul_1_2500: "fmul (Finite False 1) (Finite False 2500) = Finite False 2500"
  by (simp add: round_eval)

lemma mul_2500_997:
  "fmul (Finite False 2500) (Finite False (8980177656976769 / 9007199254740992)) = Finite False (4985 / 2)"
  by (simp add: round_eval)

lemma mul_100_999:
  "fmul (Finite False 100) (Finite False (8998192055486251 / 9007199254740992))
   = Finite False (3514918771674317 / 35184372088832)"
  by (simp add: round_eval)

lemma mul_99_9_997:
  "fmul (Finite False (3514918771674317 / 35184372088832))
     (Finite False (8980177656976769 / 9007199254740992))
   = Finite False (1752187007679647 / 17592186044416)"
  by (simp add: round_eval)

lemma round64_0: "round64 s 0 = Finite s 0"
  by (simp add: round64_def)


subsection \<open>The result of a testnet swap\<close>


lemma getSwapQuote_ignores_database:
  "getSwapQuote (w\<lparr>prisma_create := db\<rparr>) cfg c f t a s u = getSwapQuote w cfg c f t a s u"
  by (simp add: getSwapQuote_def getSwapQuote_try_def getSwapQuote_live_def getSwapQuote_mock_def
      http_get_def quote_request_def generateAuthHeaders_def)

lemma executeSwap_live_ignores_database:
  "executeSwap_live (w\<lparr>prisma_create := db\<rparr>) cfg c f t a s u = executeSwap_live w cfg c f t a s u"
  by (simp add: executeSwap_live_def getSwapQuote_ignores_database http_get_def swap_request_def
      generateAuthHeaders_def cong: if_cong)

lemma executeSwap_mock_result:
  "snd (executeSwap_mock w c f t a pid) =
     (case calculateMockSwapOutput f t a c of Inl e \<Rightarrow> Inl e | Inr out \<Rightarrow> Inr (mockSwapResult w a out))"
proof (cases "calculateMockSwapOutput f t a c")
  case (Inl e)
  then show ?thesis by (simp add: executeSwap_mock_def comp_defs)
next
  case (Inr out)
  obtain ev where "logSwapTransaction w
      \<lparr> sd_paymentRequestId = pid, sd_fromToken = f, sd_toToken = t, sd_fromAmount = a,
        sd_toAmount = PStr out, sd_transactionHash = PStr (''0x'' @ random_hex32 w 0),
        sd_chainId = c, sd_status = PStr ''completed'' \<rparr> = (ev, Inr ())"
    using logSwapTransaction_returns by blast
  with Inr show ?thesis by (simp add: executeSwap_mock_def comp_defs)
qed

lemma snd_try_catch:
  "snd (try_catch m handler) = (case snd m of Inl e \<Rightarrow> snd (handler e) | Inr x \<Rightarrow> Inr x)"
  by (cases m) (auto simp: try_catch_def split: sum.splits prod.splits)

lemma try_catch_snd:
  "snd m = snd m' \<Longrightarrow> (\<And>e. snd (handler e) = snd (handler' e)) \<Longrightarrow>
   snd (try_catch m handler) = snd (try_catch m' handler')"
  by (simp add: snd_try_catch split: sum.splits)

lemma executeSwap_ignores_database:
  "snd (executeSwap (w\<lparr>prisma_create := db\<rparr>) cfg c f t a s u pid) = snd (executeSwap w cfg c f t a s u pid)"
  unfolding executeSwap_def
  by (rule try_catch_snd)
     (simp_all add: executeSwap_mock_result executeSwap_live_ignores_database mockSwapResult_def
        split: sum.splits)

lemma logged_failure:
  assumes "getTokenSymbol (sd_fromToken sd) (sd_chainId sd) = Inr currency"
    and "prisma_create w (swap_row w sd currency) = Some m"
  shows "logSwapTransaction w sd =
           ([DbCreate (swap_row w sd currency), ConsoleError ''Error logging swap transaction:'' m], Inr ())"
  using assms by (simp add: logSwapTransaction_def logSwapTransaction_try_def comp_defs)

subsection \<open>Rounding keeps the sign\<close>

lemma pow2_pos: "0 < pow2 e"
  by (simp add: pow2_def)











subsection \<open>A printed number reads back without a sign\<close>





















subsection \<open>Rounding is to nearest\<close>

text \<open>
  What \<open>round64\<close> computes is the rounding of the standard: the integer nearest to a
  quotient is at most one half away, the bisection finds the power of two at or below its
  argument, and so a normal result is within half a unit in the last of 53 places, a
  subnormal one within half of \<open>2 ^ - 1074\<close>.
\<close>

lemma round_half_even_near: "\<bar>of_int (round_half_even r) - r\<bar> \<le> 1 / 2"
proof -
  have "of_int \<lfloor>r\<rfloor> \<le> r" by simp
  moreover have "r < of_int \<lfloor>r\<rfloor> + 1" by linarith
  ultimately show ?thesis
    by (auto simp: round_half_even_def half_even_def abs_le_iff)
qed

lemma round_to_unit_near:
  assumes "0 < u"
  shows "\<bar>round_to_unit u a - a\<bar> \<le> u / 2"
proof -
  have "round_to_unit u a - a = (of_int (round_half_even (a / u)) - a / u) * u"
    using assms by (simp add: round_to_unit_def field_simps)
  then have "\<bar>round_to_unit u a - a\<bar> = \<bar>of_int (round_half_even (a / u)) - a / u\<bar> * u"
    using assms by (simp add: abs_mult)
  also have "\<dots> \<le> (1 / 2) * u"
    using round_half_even_near[of "a / u"] assms by (intro mult_right_mono) auto
  finally show ?thesis by simp
qed

lemma binary_exponent_brackets:
  "lo < hi \<Longrightarrow> pow2 lo \<le> a \<Longrightarrow> a < pow2 hi \<Longrightarrow>
   pow2 (binary_exponent lo hi a) \<le> a \<and> a < pow2 (binary_exponent lo hi a + 1)"
proof (induction lo hi a rule: binary_exponent.induct)
  case (1 lo hi a)
  show ?case
  proof (cases "hi - lo \<le> 1")
    case True
    with 1 have "hi = lo + 1" by simp
    with True 1 show ?thesis by (subst (1 2) binary_exponent.simps) simp
  next
    case False
    then have mid: "lo < (lo + hi) div 2" "(lo + hi) div 2 < hi" by linarith+
    show ?thesis
    proof (cases "pow2 ((lo + hi) div 2) \<le> a")
      case True
      with False 1 mid show ?thesis by (subst (1 2) binary_exponent.simps) simp
    next
      case False': False
      with False 1 mid show ?thesis by (subst (1 2) binary_exponent.simps) simp
    qed
  qed
qed

lemma round64_normal:
  assumes "pow2 (- 1022) \<le> a" and "a < pow2 1024"
  shows "\<exists>e r. pow2 e \<le> a \<and> a < pow2 (e + 1) \<and> \<bar>r - a\<bar> \<le> pow2 (e - 52) / 2
               \<and> round64 s a = (if pow2 1024 \<le> r then Infinite s else Finite s r)"
proof -
  let ?e = "binary_exponent (- 1022) 1024 a"
  let ?r = "round_to_unit (pow2 (?e - 52)) a"
  from assms pow2_pos[of "- 1022"] have "a \<noteq> 0" by auto
  with assms have "round64 s a = (if pow2 1024 \<le> ?r then Infinite s else Finite s ?r)"
    by (simp add: round64_def overflow_check_def)
  moreover from binary_exponent_brackets[of "- 1022" 1024 a] assms
  have "pow2 ?e \<le> a \<and> a < pow2 (?e + 1)" by simp
  moreover have "\<bar>?r - a\<bar> \<le> pow2 (?e - 52) / 2"
    by (rule round_to_unit_near) (rule pow2_pos)
  ultimately show ?thesis by blast
qed

lemma round64_subnormal:
  assumes "0 < a" and "a < pow2 (- 1022)"
  shows "\<exists>r. \<bar>r - a\<bar> \<le> pow2 (- 1074) / 2 \<and> round64 s a = Finite s r"
proof -
  have "pow2 (- 1022) \<le> pow2 1024" by (simp add: pow2_def)
  with assms have "round64 s a = Finite s (round_to_unit (pow2 (- 1074)) a)"
    by (simp add: round64_def)
  moreover have "\<bar>round_to_unit (pow2 (- 1074)) a - a\<bar> \<le> pow2 (- 1074) / 2"
    by (rule round_to_unit_near) (rule pow2_pos)
  ultimately show ?thesis by blast
qed

section \<open>The properties of the specification\<close>

subsection \<open>Equal tokens are paid directly\<close>



subsection \<open>The testnet quote and the fee\<close>

text \<open>
  C2.  What the code does at the two inputs of the specification.  In testnet mode the quote
  for one ETH in USDC is \<open>2500\<close> and the quote for a hundred USDC in USDT is \<open>99.9\<close>,
  with no event; the amounts the specification states, \<open>2500 * 0.997\<close> and
  \<open>100 * 0.999 * 0.997\<close>, are \<open>2492.5\<close> and \<open>99.6003\<close>.  The quote deducts no fee.
\<close>

theorem testnet_quote_deducts_no_fee:
  "getSwapQuote base_world testnet_config (PStr ''84532'') (PStr ETH_address) (PStr USDC_address)
     (PStr ''1'') PUndefined PUndefined
   = ([], Inr (quote_success (mockQuote (PStr ''84532'') (PStr ETH_address) (PStr USDC_address)
                                (PStr ''1'') (PStr ''2500'') (PStr ''0.5''))))
   \<and> getSwapQuote base_world testnet_config (PStr ''84532'') (PStr USDC_address) (PStr USDT_address)
       (PStr ''100'') PUndefined PUndefined
     = ([], Inr (quote_success (mockQuote (PStr ''84532'') (PStr USDC_address) (PStr USDT_address)
                                  (PStr ''100'') (PStr ''99.9'') (PStr ''0.5''))))
   \<and> numToString (fmul (lit 2500) (lit (997 / 1000))) = ''2492.5''
   \<and> numToString (fmul (fmul (lit 100) (lit (999 / 1000))) (lit (997 / 1000))) = ''99.6003''"
proof -
  have lit_100: "lit 100 = Finite False 100" by (simp add: round_eval)
  have a: "quote_outputAmount ''ETH'' ''USDC'' (PStr ''1'') = PStr ''2500''"
    by (simp add: quote_outputAmount_def parse_1 lit_2500 mul_1_2500 print_2500 del: fmul.simps)
  have b: "quote_outputAmount ''USDC'' ''USDT'' (PStr ''100'') = PStr ''99.9''"
    by (simp add: quote_outputAmount_def parse_100 lit_999 mul_100_999 print_99_9 del: fmul.simps)
  have c: "numToString (fmul (lit 2500) (lit (997 / 1000))) = ''2492.5''"
    by (simp add: lit_2500 lit_997 mul_2500_997 print_2492_5 del: fmul.simps)
  have d: "numToString (fmul (fmul (lit 100) (lit (999 / 1000))) (lit (997 / 1000))) = ''99.6003''"
    by (simp add: lit_100 lit_999 lit_997 mul_100_999 mul_99_9_997 print_99_6003 del: fmul.simps)
  from testnet_quote[OF testnet_config_mode symbol_ETH symbol_USDC, of base_world "PStr ''1''" PUndefined PUndefined]
       testnet_quote[OF testnet_config_mode symbol_USDC symbol_USDT, of base_world "PStr ''100''" PUndefined PUndefined]
       a b c d
  show ?thesis by (simp add: default_slippage_def)
qed

subsection \<open>The route is a value, never an exception\<close>

text \<open>
  C3 as stated fails, twice.  A call without an argument throws: the parameter list
  destructures \<open>undefined\<close> before the \<open>try\<close> is entered, so no \<open>catch\<close> sees the
  \<open>TypeError\<close>.  And a provider answer with code \<open>0\<close> whose first data element has none
  of the quote's fields is malformed, yet it is accepted: the route says
  \<open>swapPossible: true\<close> and every amount is \<open>undefined\<close>.
\<close>

theorem missing_argument_throws_and_fieldless_quote_is_accepted:
  "calculatePaymentRoute base_world testnet_config (ArgPrim PUndefined)
   = ([], Inl (TypeError (cannot_destructure ''payerPreferredToken'' ''undefined'' ''undefined'')))
   \<and> snd (calculatePaymentRoute fieldless_world production_config
            (ArgObject \<lparr> rr_payerPreferredToken = PStr ETH_address,
                         rr_payeeRequiredToken = PStr USDC_address,
                         rr_amount = PStr ''100'', rr_chainId = PStr ''84532'',
                         rr_userWalletAddress = PUndefined \<rparr>))
     = Inr (JObj [(''swapRequired'', JPrim (PBool True)),
                  (''swapPossible'', JPrim (PBool True)),
                  (''inputAmount'', JPrim (PStr ''100'')),
                  (''outputAmount'', JPrim PUndefined),
                  (''estimatedGas'', JPrim PUndefined),
                  (''tradeFee'', JPrim PUndefined),
                  (''priceImpact'', JPrim PUndefined),
                  (''route'', JPrim PUndefined),
                  (''slippage'', JPrim PUndefined)])"
proof -
  have "snd (calculatePaymentRoute fieldless_world production_config
            (ArgObject \<lparr> rr_payerPreferredToken = PStr ETH_address,
                         rr_payeeRequiredToken = PStr USDC_address,
                         rr_amount = PStr ''100'', rr_chainId = PStr ''84532'',
                         rr_userWalletAddress = PUndefined \<rparr>))
     = Inr (JObj [(''swapRequired'', JPrim (PBool True)),
                  (''swapPossible'', JPrim (PBool True)),
                  (''inputAmount'', JPrim (PStr ''100'')),
                  (''outputAmount'', JPrim PUndefined),
                  (''estimatedGas'', JPrim PUndefined),
                  (''tradeFee'', JPrim PUndefined),
                  (''priceImpact'', JPrim PUndefined),
                  (''route'', JPrim PUndefined),
                  (''slippage'', JPrim PUndefined)])"
    using production_config_mode ETH_USDC_differ
    by (simp add: calculatePaymentRoute_def destructure_object calculatePaymentRoute_try_def
        getSwapQuote_def getSwapQuote_try_def getSwapQuote_live_def comp_defs fieldless_world_def
        default_slippage_def envelope_first_def quote_success_def swap_route_def)
  with route_of_nullish(1)[of base_world testnet_config] show ?thesis by simp
qed

text \<open>
  C3 (amended).  Called with an argument object \<open>r\<close>, whose five properties are primitive
  values or absent, \<open>calculatePaymentRoute\<close> returns a value and throws nothing; the value
  is the direct route, an unavailable route
  \<open>{swapRequired: true, swapPossible: false, error: reason}\<close> with a string reason, or a
  resolved route.  Whenever \<open>getSwapQuote\<close> reports a failure for two different token
  strings, and whenever anything throws inside the \<open>try\<close>, the result is the unavailable
  route with that failure's message.  In live mode a provider answer with code \<open>0\<close> whose
  first data element is truthy is accepted as the quote, whatever its fields: the route is
  resolved from that element.  Called with a primitive other than \<open>undefined\<close> and
  \<open>null\<close>, the method returns the unavailable route.  Called with \<open>undefined\<close> (no
  argument) or \<open>null\<close>, it throws a \<open>TypeError\<close> and causes no event.
\<close>

theorem route_never_throws:
  "(\<exists>ev v. calculatePaymentRoute w cfg (ArgObject r) = (ev, Inr v)
            \<and> (v = direct_route (rr_amount r) \<or> (\<exists>m. v = no_route (JPrim (PStr m)))
                 \<or> (\<exists>d. v = resolved_route (rr_amount r) d)))
   \<and> (\<forall>ev m p q. rr_payerPreferredToken r = PStr p \<and> rr_payeeRequiredToken r = PStr q
          \<and> toLowerCase p \<noteq> toLowerCase q
          \<and> getSwapQuote w cfg (rr_chainId r) (PStr p) (PStr q) (rr_amount r) PUndefined
                (rr_userWalletAddress r) = (ev, Inr (quote_failure m)) \<longrightarrow>
        calculatePaymentRoute w cfg (ArgObject r) = (ev, Inr (no_route (JPrim (PStr m)))))
   \<and> (\<forall>ev e. calculatePaymentRoute_try w cfg (rr_payerPreferredToken r) (rr_payeeRequiredToken r)
                 (rr_amount r) (rr_chainId r) (rr_userWalletAddress r) = (ev, Inl e) \<longrightarrow>
        calculatePaymentRoute w cfg (ArgObject r) =
          (ev @ [ConsoleError ''Error calculating payment route:'' (message e)],
           Inr (no_route (JPrim (PStr (message e))))))
   \<and> (\<forall>body p q. rr_payerPreferredToken r = PStr p \<and> rr_payeeRequiredToken r = PStr q
          \<and> toLowerCase p \<noteq> toLowerCase q \<and> \<not> testnetMode cfg
          \<and> axios_get w (quote_request w cfg
                (swap_query (rr_chainId r) (PStr p) (PStr q) (rr_amount r) (PStr ''0.5'')
                   (rr_userWalletAddress r))) = Resolves body
          \<and> opt_prop body ''code'' = JPrim (PStr ''0'') \<and> truthy_json (envelope_first body) \<longrightarrow>
        snd (calculatePaymentRoute w cfg (ArgObject r))
          = Inr (resolved_route (rr_amount r) (envelope_first body)))
   \<and> (\<forall>v. v \<noteq> PUndefined \<and> v \<noteq> PNull \<longrightarrow>
        (\<exists>ev m. calculatePaymentRoute w cfg (ArgPrim v) = (ev, Inr (no_route (JPrim (PStr m))))))
   \<and> (\<exists>m. calculatePaymentRoute w cfg (ArgPrim PUndefined) = ([], Inl (TypeError m)))
   \<and> (\<exists>m. calculatePaymentRoute w cfg (ArgPrim PNull) = ([], Inl (TypeError m)))"
proof -
  have accepted: "\<forall>body p q. rr_payerPreferredToken r = PStr p \<and> rr_payeeRequiredToken r = PStr q
          \<and> toLowerCase p \<noteq> toLowerCase q \<and> \<not> testnetMode cfg
          \<and> axios_get w (quote_request w cfg
                (swap_query (rr_chainId r) (PStr p) (PStr q) (rr_amount r) (PStr ''0.5'')
                   (rr_userWalletAddress r))) = Resolves body
          \<and> opt_prop body ''code'' = JPrim (PStr ''0'') \<and> truthy_json (envelope_first body) \<longrightarrow>
        snd (calculatePaymentRoute w cfg (ArgObject r))
          = Inr (resolved_route (rr_amount r) (envelope_first body))"
    using route_of_accepted_quote[of r _ _ cfg w] by blast
  have primitive: "\<forall>v. v \<noteq> PUndefined \<and> v \<noteq> PNull \<longrightarrow>
        (\<exists>ev m. calculatePaymentRoute w cfg (ArgPrim v) = (ev, Inr (no_route (JPrim (PStr m)))))"
    using route_of_primitive[of _ w cfg] by blast
  have failed: "\<forall>ev m p q. rr_payerPreferredToken r = PStr p \<and> rr_payeeRequiredToken r = PStr q
          \<and> toLowerCase p \<noteq> toLowerCase q
          \<and> getSwapQuote w cfg (rr_chainId r) (PStr p) (PStr q) (rr_amount r) PUndefined
                (rr_userWalletAddress r) = (ev, Inr (quote_failure m)) \<longrightarrow>
        calculatePaymentRoute w cfg (ArgObject r) = (ev, Inr (no_route (JPrim (PStr m))))"
    using route_of_failed_quote[of r _ _ w cfg] by blast
  have thrown: "\<forall>ev e. calculatePaymentRoute_try w cfg (rr_payerPreferredToken r) (rr_payeeRequiredToken r)
                 (rr_amount r) (rr_chainId r) (rr_userWalletAddress r) = (ev, Inl e) \<longrightarrow>
        calculatePaymentRoute w cfg (ArgObject r) =
          (ev @ [ConsoleError ''Error calculating payment route:'' (message e)],
           Inr (no_route (JPrim (PStr (message e)))))"
    using route_of_thrown[of w cfg r] by blast
  from calculatePaymentRoute_cases[of w cfg r] failed thrown accepted primitive
    route_of_nullish[of w cfg]
  show ?thesis by blast
qed

theorem route_never_throws_witness:
  "toLowerCase ETH_address \<noteq> toLowerCase USDC_address
   \<and> snd (getSwapQuote base_world production_config (PStr ''84532'') (PStr ETH_address)
             (PStr USDC_address) (PStr ''100'') PUndefined PUndefined)
       = Inr (quote_failure ''timeout of 15000ms exceeded'')
   \<and> snd (calculatePaymentRoute base_world production_config
            (ArgObject \<lparr> rr_payerPreferredToken = PStr ETH_address,
                         rr_payeeRequiredToken = PStr USDC_address,
                         rr_amount = PStr ''100'', rr_chainId = PStr ''84532'',
                         rr_userWalletAddress = PUndefined \<rparr>))
       = Inr (no_route (JPrim (PStr ''timeout of 15000ms exceeded'')))
   \<and> calculatePaymentRoute_try base_world testnet_config PUndefined (PStr USDC_address)
        (PStr ''100'') (PStr ''84532'') PUndefined
       = ([], Inl (TypeError (cannot_read ''undefined'' ''toLowerCase'')))
   \<and> snd (calculatePaymentRoute base_world testnet_config
            (ArgObject \<lparr> rr_payerPreferredToken = PUndefined,
                         rr_payeeRequiredToken = PStr USDC_address,
                         rr_amount = PStr ''100'', rr_chainId = PStr ''84532'',
                         rr_userWalletAddress = PUndefined \<rparr>))
       = Inr (no_route (JPrim (PStr (cannot_read ''undefined'' ''toLowerCase''))))
   \<and> \<not> testnetMode production_config
   \<and> truthy_json (envelope_first (JObj [(''code'', JPrim (PStr ''0'')),
                                        (''data'', JArr [JObj [(''toTokenAmount'', JPrim (PStr ''7''))]])]))
   \<and> snd (calculatePaymentRoute
            (base_world\<lparr> axios_get := (\<lambda>req. Resolves
                 (JObj [(''code'', JPrim (PStr ''0'')),
                        (''data'', JArr [JObj [(''toTokenAmount'', JPrim (PStr ''7''))]])])) \<rparr>)
            production_config
            (ArgObject \<lparr> rr_payerPreferredToken = PStr ETH_address,
                         rr_payeeRequiredToken = PStr USDC_address,
                         rr_amount = PStr ''100'', rr_chainId = PStr ''84532'',
                         rr_userWalletAddress = PUndefined \<rparr>))
       = Inr (JObj [(''swapRequired'', JPrim (PBool True)),
                    (''swapPossible'', JPrim (PBool True)),
                    (''inputAmount'', JPrim (PStr ''100'')),
                    (''outputAmount'', JPrim (PStr ''7'')),
                    (''estimatedGas'', JPrim PUndefined),
                    (''tradeFee'', JPrim PUndefined),
                    (''priceImpact'', JPrim PUndefined),
                    (''route'', JPrim PUndefined),
                    (''slippage'', JPrim PUndefined)])
   \<and> snd (calculatePaymentRoute base_world testnet_config (ArgPrim (PStr ''ETH'')))
       = Inr (no_route (JPrim (PStr (cannot_read ''undefined'' ''toLowerCase''))))
   \<and> snd (calculatePaymentRoute base_world testnet_config (ArgPrim PNull))
       = Inl (TypeError (cannot_destructure ''payerPreferredToken'' ''object null'' ''null''))"
proof -
  let ?r = "\<lparr> rr_payerPreferredToken = PStr ETH_address, rr_payeeRequiredToken = PStr USDC_address,
              rr_amount = PStr ''100'', rr_chainId = PStr ''84532'', rr_userWalletAddress = PUndefined \<rparr>"
  let ?r' = "\<lparr> rr_payerPreferredToken = PUndefined, rr_payeeRequiredToken = PStr USDC_address,
               rr_amount = PStr ''100'', rr_chainId = PStr ''84532'', rr_userWalletAddress = PUndefined \<rparr>"
  let ?body = "JObj [(''code'', JPrim (PStr ''0'')),
                     (''data'', JArr [JObj [(''toTokenAmount'', JPrim (PStr ''7''))]])]"
  let ?w = "base_world\<lparr> axios_get := (\<lambda>req. Resolves ?body) \<rparr>"
  have axios: "axios_get base_world
                 (quote_request base_world production_config
                    (swap_query (PStr ''84532'') (PStr ETH_address) (PStr USDC_address) (PStr ''100'')
                       (default_slippage PUndefined) PUndefined))
               = Rejects ''timeout of 15000ms exceeded''"
    by (simp add: base_world_def)
  note q = live_quote_transport_error[OF production_config_mode(1) axios]
  have t: "calculatePaymentRoute_try base_world testnet_config PUndefined (PStr USDC_address)
             (PStr ''100'') (PStr ''84532'') PUndefined
           = ([], Inl (TypeError (cannot_read ''undefined'' ''toLowerCase'')))"
    by (simp add: calculatePaymentRoute_try_def comp_defs)
  have truthy: "truthy_json (envelope_first ?body)"
    by (simp add: envelope_first_def)
  from route_never_throws[of base_world production_config ?r] q ETH_USDC_differ
  have a: "snd (calculatePaymentRoute base_world production_config (ArgObject ?r))
       = Inr (no_route (JPrim (PStr ''timeout of 15000ms exceeded'')))"
    by simp
  from route_never_throws[of base_world testnet_config ?r'] t
  have b: "snd (calculatePaymentRoute base_world testnet_config (ArgObject ?r'))
       = Inr (no_route (JPrim (PStr (cannot_read ''undefined'' ''toLowerCase''))))"
    by simp
  from route_never_throws[of ?w production_config ?r] ETH_USDC_differ production_config_mode(1) truthy
  have "snd (calculatePaymentRoute ?w production_config (ArgObject ?r))
       = Inr (resolved_route (PStr ''100'') (envelope_first ?body))"
    by simp
  then have c: "snd (calculatePaymentRoute ?w production_config (ArgObject ?r))
       = Inr (JObj [(''swapRequired'', JPrim (PBool True)),
                    (''swapPossible'', JPrim (PBool True)),
                    (''inputAmount'', JPrim (PStr ''100'')),
                    (''outputAmount'', JPrim (PStr ''7'')),
                    (''estimatedGas'', JPrim PUndefined),
                    (''tradeFee'', JPrim PUndefined),
                    (''priceImpact'', JPrim PUndefined),
                    (''route'', JPrim PUndefined),
                    (''slippage'', JPrim PUndefined)])"
    by (simp add: resolved_route_def envelope_first_def)
  from route_never_throws[of base_world testnet_config ?r] route_of_primitive[of "PStr ''ETH''" base_world testnet_config]
  have d: "snd (calculatePaymentRoute base_world testnet_config (ArgPrim (PStr ''ETH'')))
       = Inr (no_route (JPrim (PStr (cannot_read ''undefined'' ''toLowerCase''))))"
    by simp
  from route_never_throws[of base_world testnet_config ?r] route_of_nullish(2)[of base_world testnet_config]
  have e: "snd (calculatePaymentRoute base_world testnet_config (ArgPrim PNull))
       = Inl (TypeError (cannot_destructure ''payerPreferredToken'' ''object null'' ''null''))"
    by simp
  from a b c d e t q ETH_USDC_differ production_config_mode(1) truthy show ?thesis by simp
qed

subsection \<open>Amounts are not validated\<close>

text \<open>
  C4 as stated fails.  A zero amount and an empty amount are not rejected: in testnet mode
  each gets a successful quote, of \<open>0\<close> and of \<open>NaN\<close>.
\<close>

theorem zero_and_empty_amounts_are_quoted:
  "getSwapQuote base_world testnet_config (PStr ''84532'') (PStr ETH_address) (PStr USDC_address)
     (PStr ''0'') PUndefined PUndefined
   = ([], Inr (quote_success (mockQuote (PStr ''84532'') (PStr ETH_address) (PStr USDC_address)
                                (PStr ''0'') (PStr ''0'') (PStr ''0.5''))))
   \<and> getSwapQuote base_world testnet_config (PStr ''84532'') (PStr ETH_address) (PStr USDC_address)
       (PStr []) PUndefined PUndefined
     = ([], Inr (quote_success (mockQuote (PStr ''84532'') (PStr ETH_address) (PStr USDC_address)
                                  (PStr []) (PStr ''NaN'') (PStr ''0.5''))))"
proof -
  have a: "quote_outputAmount ''ETH'' ''USDC'' (PStr ''0'') = PStr ''0''"
    by (simp add: quote_outputAmount_def parse_0 lit_2500 round64_0 print_0)
  have b: "quote_outputAmount ''ETH'' ''USDC'' (PStr []) = PStr ''NaN''"
    by (simp add: quote_outputAmount_def parse_empty print_NaN)
  from testnet_quote[OF testnet_config_mode symbol_ETH symbol_USDC, of base_world "PStr ''0''" PUndefined PUndefined]
       testnet_quote[OF testnet_config_mode symbol_ETH symbol_USDC, of base_world "PStr []" PUndefined PUndefined]
       a b
  show ?thesis by (simp add: default_slippage_def)
qed

text \<open>
  C4 (amended).  \<open>getSwapQuote\<close> validates no amount.  In testnet mode every amount, zero and
  empty included, gets a successful quote that repeats it as \<open>fromTokenAmount\<close>, for any two
  token strings.  In live mode the first thing the method does, whatever the amount, is to
  send the request whose query carries that amount.
\<close>

theorem amount_is_never_validated:
  "(testnetMode cfg \<longrightarrow>
      (\<exists>d. getSwapQuote w cfg c (PStr f) (PStr t) a s u = ([], Inr (quote_success d))
           \<and> opt_prop d ''fromTokenAmount'' = JPrim a))
   \<and> (\<not> testnetMode cfg \<longrightarrow>
      (\<exists>rest. fst (getSwapQuote w cfg c f' t' a s u)
               = HttpGet (quote_request w cfg (swap_query c f' t' a (default_slippage s) u)) # rest))"
proof (intro conjI impI)
  assume mode: "testnetMode cfg"
  obtain fs ts where sym: "getTokenSymbol (PStr f) c = Inr fs" "getTokenSymbol (PStr t) c = Inr ts"
    using getTokenSymbol_string by blast
  have "opt_prop (mockQuote c (PStr f) (PStr t) a (quote_outputAmount fs ts a) (default_slippage s))
          ''fromTokenAmount'' = JPrim a"
    by (simp add: mockQuote_def)
  with testnet_quote[OF mode sym, of w a s u]
  show "\<exists>d. getSwapQuote w cfg c (PStr f) (PStr t) a s u = ([], Inr (quote_success d))
           \<and> opt_prop d ''fromTokenAmount'' = JPrim a"
    by blast
next
  assume "\<not> testnetMode cfg"
  then show "\<exists>rest. fst (getSwapQuote w cfg c f' t' a s u)
               = HttpGet (quote_request w cfg (swap_query c f' t' a (default_slippage s) u)) # rest"
    by (rule live_quote_trace)
qed

theorem amount_is_never_validated_witness:
  "testnetMode testnet_config
   \<and> fst (getSwapQuote base_world testnet_config (PStr ''84532'') (PStr ETH_address) (PStr USDT_address)
            (PStr []) PUndefined PUndefined) = []
   \<and> snd (getSwapQuote base_world testnet_config (PStr ''84532'') (PStr ETH_address) (PStr USDT_address)
            (PStr []) PUndefined PUndefined)
     = Inr (quote_success (mockQuote (PStr ''84532'') (PStr ETH_address) (PStr USDT_address)
                             (PStr []) (PStr []) (PStr ''0.5'')))
   \<and> \<not> testnetMode production_config
   \<and> hd (fst (getSwapQuote base_world production_config (PStr ''84532'') (PStr ETH_address)
                 (PStr USDC_address) (PStr ''0'') PUndefined PUndefined))
     = HttpGet (quote_request base_world production_config
                  (swap_query (PStr ''84532'') (PStr ETH_address) (PStr USDC_address) (PStr ''0'')
                     (PStr ''0.5'') PUndefined))"
proof -
  have q: "quote_outputAmount ''ETH'' ''USDT'' (PStr []) = PStr []"
    by (simp add: quote_outputAmount_def)
  note quoted = testnet_quote[OF testnet_config_mode symbol_ETH symbol_USDT, of base_world "PStr []" PUndefined PUndefined]
  from amount_is_never_validated[of testnet_config base_world "PStr ''84532''" ETH_address USDT_address
      "PStr []" PUndefined PUndefined] testnet_config_mode
  have silent: "fst (getSwapQuote base_world testnet_config (PStr ''84532'') (PStr ETH_address)
                  (PStr USDT_address) (PStr []) PUndefined PUndefined) = []"
    by auto
  from amount_is_never_validated[of production_config base_world "PStr ''84532''" ETH_address USDT_address
      "PStr ''0''" PUndefined PUndefined "PStr ETH_address" "PStr USDC_address"] production_config_mode(1)
  have live: "hd (fst (getSwapQuote base_world production_config (PStr ''84532'') (PStr ETH_address)
                 (PStr USDC_address) (PStr ''0'') PUndefined PUndefined))
     = HttpGet (quote_request base_world production_config
                  (swap_query (PStr ''84532'') (PStr ETH_address) (PStr USDC_address) (PStr ''0'')
                     (PStr ''0.5'') PUndefined))"
    by (auto simp: default_slippage_def)
  from quoted q silent live testnet_config_mode production_config_mode(1) show ?thesis
    by (simp add: default_slippage_def)
qed

subsection \<open>A rejected envelope\<close>



subsection \<open>Forth and back in testnet mode\<close>




subsection \<open>The audit record\<close>

text \<open>
  C7.  \<open>logSwapTransaction\<close> always returns and never throws.  When the database rejects the
  write, the failure's message is printed with \<open>console.error\<close> and nothing else happens.
  What \<open>executeSwap\<close> returns does not depend on the database: two worlds that differ only
  in how the database answers give the same result.
\<close>

theorem audit_write_failure_is_swallowed:
  "(\<exists>ev. logSwapTransaction w sd = (ev, Inr ()))
   \<and> (\<forall>currency m. getTokenSymbol (sd_fromToken sd) (sd_chainId sd) = Inr currency
          \<and> prisma_create w (swap_row w sd currency) = Some m \<longrightarrow>
        logSwapTransaction w sd =
          ([DbCreate (swap_row w sd currency), ConsoleError ''Error logging swap transaction:'' m], Inr ()))
   \<and> snd (executeSwap (w\<lparr>prisma_create := db\<rparr>) cfg c f t a s u pid)
     = snd (executeSwap (w\<lparr>prisma_create := db'\<rparr>) cfg c f t a s u pid)"
  using logSwapTransaction_returns[of w sd] logged_failure[where w = w and sd = sd]
    executeSwap_ignores_database[where w = w and db = db]
    executeSwap_ignores_database[where w = w and db = db']
  by simp

theorem audit_write_failure_is_swallowed_witness:
  "getTokenSymbol (sd_fromToken logged_swap) (sd_chainId logged_swap) = Inr ''ETH''
   \<and> prisma_create failing_db_world (swap_row failing_db_world logged_swap ''ETH'')
     = Some ''database unreachable''
   \<and> logSwapTransaction failing_db_world logged_swap
     = ([DbCreate (swap_row failing_db_world logged_swap ''ETH''),
         ConsoleError ''Error logging swap transaction:'' ''database unreachable''], Inr ())
   \<and> snd (executeSwap failing_db_world testnet_config (PStr ''84532'') (PStr ETH_address)
            (PStr USDC_address) (PStr ''1'') PUndefined PUndefined (PStr ''pay_1''))
     = snd (executeSwap base_world testnet_config (PStr ''84532'') (PStr ETH_address)
              (PStr USDC_address) (PStr ''1'') PUndefined PUndefined (PStr ''pay_1''))"
proof -
  have sym: "getTokenSymbol (sd_fromToken logged_swap) (sd_chainId logged_swap) = Inr ''ETH''"
    by (simp add: logged_swap_def symbol_ETH)
  have db: "prisma_create failing_db_world (swap_row failing_db_world logged_swap ''ETH'')
            = Some ''database unreachable''"
    by (simp add: failing_db_world_def)
  have w1: "base_world\<lparr>prisma_create := \<lambda>row. Some ''database unreachable''\<rparr> = failing_db_world"
    by (simp add: failing_db_world_def)
  have w2: "base_world\<lparr>prisma_create := \<lambda>row. None\<rparr> = base_world"
    by (simp add: base_world_def)
  note thm1 = audit_write_failure_is_swallowed[of failing_db_world logged_swap]
  note thm2 = audit_write_failure_is_swallowed[of base_world logged_swap
      "\<lambda>row. Some ''database unreachable''" testnet_config "PStr ''84532''" "PStr ETH_address"
      "PStr USDC_address" "PStr ''1''" PUndefined PUndefined "PStr ''pay_1''" "\<lambda>row. None"]
  from thm1 sym db have logged: "logSwapTransaction failing_db_world logged_swap
     = ([DbCreate (swap_row failing_db_world logged_swap ''ETH''),
         ConsoleError ''Error logging swap transaction:'' ''database unreachable''], Inr ())"
    by blast
  from thm2 have same: "snd (executeSwap failing_db_world testnet_config (PStr ''84532'') (PStr ETH_address)
            (PStr USDC_address) (PStr ''1'') PUndefined PUndefined (PStr ''pay_1''))
     = snd (executeSwap base_world testnet_config (PStr ''84532'') (PStr ETH_address)
              (PStr USDC_address) (PStr ''1'') PUndefined PUndefined (PStr ''pay_1''))"
    by (simp only: w1 w2)
  from sym db logged same show ?thesis by blast
qed

subsection \<open>Pairs without a rate in the quote\<close>



subsection \<open>Quote and execution\<close>




subsection \<open>Requests without a signature\<close>



end
